theory Spec2Isabelle
  imports Complex_Main
begin


section \<open>Python values and exceptions\<close>

text \<open>
  Values of Python type \<^verbatim>\<open>Any\<close> as far as the code looks into them: what
  \<^verbatim>\<open>json.loads\<close> produces (a dictionary is an association list read with \<open>map_of\<close>), and
  \<open>PyObject\<close> for any other Python object, told apart by a tag. Floats that are only
  stored or compared are rationals.
\<close>

datatype py_any =
    PyNone
  | PyBool bool
  | PyInt int
  | PyFloat rat
  | PyStr string
  | PyList "py_any list"
  | PyDict "(string \<times> py_any) list"
  | PyObject string

text \<open>
  The exception classes the code names or Python raises on the paths modelled here.
\<close>

datatype exn_class =
    AuthenticationError
  | ValidationError
  | MessageError
  | RateLimitError
  | JSONDecodeError
  | TimeoutError
  | AttributeError
  | TypeError
  | ZeroDivisionError
  | OverflowError
  | ValueError
  | RecursionError
  | OtherError string

text \<open>
  Modelled from the spec: the error classes and \<^verbatim>\<open>create_error_context\<close> are defined in
  \<^verbatim>\<open>core/exceptions.py\<close>, which is not among the sources. Section 6 of the specification
  describes an error as an error code, a human-readable message and a context blob
  (user id, connection id, component, extra fields); the call sites pass \<^verbatim>\<open>message\<close>,
  \<^verbatim>\<open>error_code\<close>, \<^verbatim>\<open>context\<close> and \<^verbatim>\<open>details\<close>. An exception is kept with its class and these
  four values (\<open>exn_code = None\<close> when the call site passes no code), and the context as
  the keyword arguments given to \<^verbatim>\<open>create_error_context\<close>.
\<close>

record exn =
  exn_class :: exn_class
  exn_message :: string
  exn_code :: "string option"
  exn_context :: "(string \<times> py_any) list"
  exn_details :: "(string \<times> py_any) list"

definition create_error_context :: "(string \<times> py_any) list \<Rightarrow> (string \<times> py_any) list" where
  "create_error_context kwargs = kwargs"

definition py_opt_str :: "string option \<Rightarrow> py_any" where
  "py_opt_str s = (case s of None \<Rightarrow> PyNone | Some v \<Rightarrow> PyStr v)"

text \<open>Truthiness of an \<^verbatim>\<open>Optional[str]\<close>: \<^verbatim>\<open>None\<close> and the empty string are false.\<close>

definition truthy_str :: "string option \<Rightarrow> bool" where
  "truthy_str s = (case s of None \<Rightarrow> False | Some v \<Rightarrow> v \<noteq> [])"

text \<open>An exception raised with a message only, such as the ones Python itself raises.\<close>

definition py_raise :: "exn_class \<Rightarrow> string \<Rightarrow> exn" where
  "py_raise cls msg =
     \<lparr>exn_class = cls, exn_message = msg, exn_code = None, exn_context = [], exn_details = []\<rparr>"

text \<open>
  Values that cannot be hashed: testing \<^verbatim>\<open>x in s\<close> for a set or dictionary \<open>s\<close> raises
  \<^verbatim>\<open>TypeError\<close> for them.
\<close>

fun unhashable :: "py_any \<Rightarrow> bool" where
  "unhashable (PyList _) = True"
| "unhashable (PyDict _) = True"
| "unhashable _ = False"

section \<open>Python floats\<close>

text \<open>
  A Python \<^verbatim>\<open>float\<close> is an IEEE 754 binary64 number: a finite value \<open>m * 2 ^ e\<close> with
  \<open>\<bar>m\<bar> < 2 ^ 53\<close> and \<open>-1074 \<le> e \<le> 971\<close>, an infinity or a NaN. The finite values are
  kept as rationals.
\<close>

datatype py_float = Finite rat | PosInf | NegInf | NaN

text \<open>\<^verbatim>\<open>int.bit_length\<close>: the number of binary digits of a positive integer.\<close>

function bit_length :: "int \<Rightarrow> nat" where
  "bit_length n = (if n \<le> 0 then 0 else Suc (bit_length (n div 2)))"
  by pat_completeness auto
termination
  by (relation "measure nat") auto

definition pow2 :: "int \<Rightarrow> rat" where
  "pow2 e = (if 0 \<le> e then 2 ^ nat e else 1 / 2 ^ nat (- e))"

text \<open>
  The exponent \<open>e\<close> with \<open>pow2 e \<le> \<bar>x\<bar> < pow2 (e + 1)\<close>, for \<open>x \<noteq> 0\<close>: read off the
  integer part when \<open>1 \<le> \<bar>x\<bar>\<close>, and off the integer part of the reciprocal otherwise,
  where the candidate is one too large unless \<open>\<bar>x\<bar>\<close> is a power of two.
\<close>

definition float_exponent :: "rat \<Rightarrow> int" where
  "float_exponent x =
     (if 1 \<le> \<bar>x\<bar> then int (bit_length \<lfloor>\<bar>x\<bar>\<rfloor>) - 1
      else let k = 1 - int (bit_length \<lfloor>1 / \<bar>x\<bar>\<rfloor>)
           in if pow2 k \<le> \<bar>x\<bar> then k else k - 1)"

definition round_half_even :: "rat \<Rightarrow> int" where
  "round_half_even x =
     (let f = \<lfloor>x\<rfloor>; d = x - of_int f
      in if d < 1 / 2 then f
         else if 1 / 2 < d then f + 1
         else if even f then f else f + 1)"

text \<open>
  Rounding to nearest, ties to the even significand: the exact value is rounded to a
  multiple of the unit in the last place, which is \<open>2 ^ (e - 52)\<close> for a value with
  exponent \<open>e\<close> and never less than \<open>2 ^ -1074\<close> (subnormal values, and underflow to zero).
\<close>

definition fl :: "rat \<Rightarrow> rat" where
  "fl x =
     (if x = 0 then 0
      else let e = max (float_exponent x - 52) (- 1074)
           in of_int (round_half_even (x / pow2 e)) * pow2 e)"

text \<open>
  The result of a float operation whose exact value is \<open>x\<close>: the rounded value, or an
  infinity when the rounded value has magnitude \<open>2 ^ 1024\<close> or more (overflow).
\<close>

definition round_float :: "rat \<Rightarrow> py_float" where
  "round_float x =
     (if pow2 1024 \<le> fl x then PosInf
      else if fl x \<le> - pow2 1024 then NegInf
      else Finite (fl x))"

text \<open>\<^verbatim>\<open>a - b\<close> on two finite floats.\<close>

definition float_sub :: "rat \<Rightarrow> rat \<Rightarrow> py_float" where
  "float_sub a b = round_float (a - b)"

text \<open>
  \<^verbatim>\<open>a * b\<close> for a float \<open>a\<close> and a finite float \<open>b\<close>: an infinity times zero is a NaN,
  and no exception is raised.
\<close>

definition float_mul :: "py_float \<Rightarrow> rat \<Rightarrow> py_float" where
  "float_mul a b =
     (case a of
        Finite x \<Rightarrow> round_float (x * b)
      | PosInf \<Rightarrow> (if 0 < b then PosInf else if b < 0 then NegInf else NaN)
      | NegInf \<Rightarrow> (if 0 < b then NegInf else if b < 0 then PosInf else NaN)
      | NaN \<Rightarrow> NaN)"

text \<open>
  \<^verbatim>\<open>a / b\<close> on two integers: Python rounds the exact quotient once, and raises
  \<^verbatim>\<open>ZeroDivisionError\<close> for a zero divisor and \<^verbatim>\<open>OverflowError\<close> when the rounded quotient
  is too large for a float.
\<close>

definition int_truediv :: "int \<Rightarrow> int \<Rightarrow> exn + rat" where
  "int_truediv a b =
     (if b = 0 then Inl (py_raise ZeroDivisionError ''division by zero'')
      else
        (case round_float (of_int a / of_int b) of
           Finite q \<Rightarrow> Inr q
         | _ \<Rightarrow> Inl (py_raise OverflowError ''integer division result too large for a float'')))"

text \<open>
  \<^verbatim>\<open>int(x)\<close> drops the fractional part of a finite float and raises \<^verbatim>\<open>OverflowError\<close> for
  an infinity and \<^verbatim>\<open>ValueError\<close> for a NaN.
\<close>

definition py_int :: "py_float \<Rightarrow> exn + int" where
  "py_int x =
     (case x of
        Finite v \<Rightarrow> Inr (if 0 \<le> v then \<lfloor>v\<rfloor> else \<lceil>v\<rceil>)
      | NaN \<Rightarrow> Inl (py_raise ValueError ''cannot convert float NaN to integer'')
      | _ \<Rightarrow> Inl (py_raise OverflowError ''cannot convert float infinity to integer''))"

text \<open>\<^verbatim>\<open>a > b\<close> for a float \<open>a\<close> and a finite number \<open>b\<close>; a NaN compares false.\<close>

definition float_gt :: "py_float \<Rightarrow> rat \<Rightarrow> bool" where
  "float_gt a b =
     (case a of Finite x \<Rightarrow> b < x | PosInf \<Rightarrow> True | NegInf \<Rightarrow> False | NaN \<Rightarrow> False)"

text \<open>A value is exact when the float operation that yields it returns it as it is.\<close>

definition float_exact :: "rat \<Rightarrow> bool" where
  "float_exact x \<longleftrightarrow> round_float x = Finite x"

section \<open>BaseBackend: the group index (core/backends/base.py)\<close>

text \<open>
  \<^verbatim>\<open>BaseBackend.__init__\<close> creates two dictionaries and a counter. The asyncio lock
  serialises the bodies of the mutating methods; none of them awaits while holding it,
  so each method is one atomic state transformer. \<^verbatim>\<open>_channel_counter\<close> is written
  \<open>channel_counter\<close>.
\<close>

record base_backend =
  groups :: "string \<rightharpoonup> string set"
  subscriptions :: "string \<rightharpoonup> string set"
  channel_counter :: int

definition BaseBackend :: base_backend where
  "BaseBackend = \<lparr>groups = Map.empty, subscriptions = Map.empty, channel_counter = 0\<rparr>"

text \<open>
  \<^verbatim>\<open>if group not in self.groups: self.groups[group] = set()\<close> followed by
  \<^verbatim>\<open>self.groups[group].add(channel)\<close>.
\<close>

definition group_add ::
  "string \<Rightarrow> string \<Rightarrow> 'a base_backend_scheme \<Rightarrow> 'a base_backend_scheme" where
  "group_add grp channel b =
     (let gs = (case groups b grp of
                  None \<Rightarrow> (groups b)(grp \<mapsto> {})
                | Some _ \<Rightarrow> groups b);
          members = (case gs grp of None \<Rightarrow> {} | Some s \<Rightarrow> s)
      in b\<lparr>groups := gs(grp \<mapsto> insert channel members)\<rparr>)"

text \<open>
  \<^verbatim>\<open>if group in self.groups:\<close> discard the channel, then
  \<^verbatim>\<open>if not self.groups[group]: del self.groups[group]\<close>.
\<close>

definition group_discard ::
  "string \<Rightarrow> string \<Rightarrow> 'a base_backend_scheme \<Rightarrow> 'a base_backend_scheme" where
  "group_discard grp channel b =
     (case groups b grp of
        None \<Rightarrow> b
      | Some s \<Rightarrow>
          (let s' = s - {channel}
           in if s' = {} then b\<lparr>groups := (groups b)(grp := None)\<rparr>
              else b\<lparr>groups := (groups b)(grp \<mapsto> s')\<rparr>))"

text \<open>\<^verbatim>\<open>self.groups.get(group, set()).copy()\<close>\<close>

definition group_channels :: "string \<Rightarrow> 'a base_backend_scheme \<Rightarrow> string set" where
  "group_channels grp b = (case groups b grp of None \<Rightarrow> {} | Some s \<Rightarrow> s)"

text \<open>Sequences of calls against one backend instance.\<close>

datatype group_op = GroupAdd string string | GroupDiscard string string

fun apply_group_op :: "'a base_backend_scheme \<Rightarrow> group_op \<Rightarrow> 'a base_backend_scheme" where
  "apply_group_op b (GroupAdd g c) = group_add g c b"
| "apply_group_op b (GroupDiscard g c) = group_discard g c b"

definition run_group_ops :: "group_op list \<Rightarrow> 'a base_backend_scheme \<Rightarrow> 'a base_backend_scheme" where
  "run_group_ops ops b = foldl apply_group_op b ops"

definition no_empty_group :: "'a base_backend_scheme \<Rightarrow> bool" where
  "no_empty_group b \<longleftrightarrow> (\<forall>g s. groups b g = Some s \<longrightarrow> s \<noteq> {})"

section \<open>BaseBackend.new_channel (core/backends/base.py)\<close>

text \<open>
  \<^verbatim>\<open>str(n)\<close> for a Python integer: decimal digits, most significant first, with a
  leading minus sign for negative values.
\<close>

definition digit_char :: "nat \<Rightarrow> char" where
  "digit_char d = ''0123456789'' ! d"

function str_nat :: "nat \<Rightarrow> string" where
  "str_nat n = (if n < 10 then [digit_char n] else str_nat (n div 10) @ [digit_char (n mod 10)])"
  by pat_completeness auto
termination
  by (relation "measure (\<lambda>n. n)") auto

definition str_int :: "int \<Rightarrow> string" where
  "str_int i = (if i < 0 then CHR ''-'' # str_nat (nat (- i)) else str_nat (nat i))"

text \<open>
  \<^verbatim>\<open>self._channel_counter += 1\<close>, then the f-string
  \<^verbatim>\<open>f"{prefix}.{int(loop.time() * 1000)}.{self._channel_counter}"\<close>. The reading of the
  event-loop clock is not under the program's control: \<open>loop_ms\<close> stands for the value of
  \<^verbatim>\<open>int(asyncio.get_event_loop().time() * 1000)\<close> at the call. The body runs under the
  backend lock and does not await, so calls on one instance take effect one after another.
\<close>

definition new_channel ::
  "string \<Rightarrow> int \<Rightarrow> 'a base_backend_scheme \<Rightarrow> string \<times> 'a base_backend_scheme" where
  "new_channel prefix loop_ms b =
     (let b' = b\<lparr>channel_counter := channel_counter b + 1\<rparr>
      in (prefix @ ''.'' @ str_int loop_ms @ ''.'' @ str_int (channel_counter b'), b'))"

text \<open>A sequence of calls on one backend instance, each with its prefix and clock reading.\<close>

fun new_channels ::
  "(string \<times> int) list \<Rightarrow> 'a base_backend_scheme \<Rightarrow> string list \<times> 'a base_backend_scheme" where
  "new_channels [] b = ([], b)"
| "new_channels ((prefix, loop_ms) # calls) b =
     (let (name, b') = new_channel prefix loop_ms b;
          (names, b'') = new_channels calls b'
      in (name # names, b''))"

text \<open>Reading a decimal string back, and the part of a name after its last dot.\<close>

definition digit_val :: "char \<Rightarrow> nat" where
  "digit_val c = of_char c - 48"

definition nat_of_str :: "string \<Rightarrow> nat" where
  "nat_of_str s = foldl (\<lambda>acc c. 10 * acc + digit_val c) 0 s"

definition last_component :: "string \<Rightarrow> string" where
  "last_component s = rev (takeWhile (\<lambda>c. c \<noteq> CHR ''.'') (rev s))"

section \<open>MemoryBackend: queues and the connection registry (core/backends/memory.py)\<close>

text \<open>
  The value stored per connection by \<^verbatim>\<open>registry_add_connection\<close>: the dictionary with the
  keys \<^verbatim>\<open>user_id\<close>, \<^verbatim>\<open>metadata\<close>, \<^verbatim>\<open>groups\<close> and \<^verbatim>\<open>heartbeat_timeout\<close>.
\<close>

record registry_entry =
  entry_user_id :: "string option"
  entry_metadata :: py_any
  entry_groups :: "string set"
  entry_heartbeat_timeout :: rat

text \<open>
  \<^verbatim>\<open>MemoryBackend\<close> extends \<^verbatim>\<open>BaseBackend\<close>. \<open>channels\<close> maps a channel to the content of its
  queue, oldest message first. The \<^verbatim>\<open>defaultdict(set)\<close> of \<^verbatim>\<open>_registry_user_connections\<close> is a
  map whose missing keys read as the empty set when indexed; \<^verbatim>\<open>.get(k, set())\<close> and
  \<^verbatim>\<open>k in d\<close> do not create the key.
\<close>

record memory_backend = base_backend +
  channels :: "string \<rightharpoonup> py_any list"
  registry_connections :: "string set"
  registry_connection_data :: "string \<rightharpoonup> registry_entry"
  registry_user_connections :: "string \<rightharpoonup> string set"

definition MemoryBackend :: memory_backend where
  "MemoryBackend =
     \<lparr>groups = Map.empty, subscriptions = Map.empty, channel_counter = 0,
      channels = Map.empty, registry_connections = {},
      registry_connection_data = Map.empty, registry_user_connections = Map.empty\<rparr>"

text \<open>
  How a call ends: it returns a value, raises, or waits forever.
\<close>

datatype 'a outcome = Returns 'a | Raises exn | NeverReturns

text \<open>
  \<^verbatim>\<open>get_message\<close>: \<^verbatim>\<open>None\<close> for a channel without a queue, otherwise
  \<^verbatim>\<open>asyncio.wait_for(self.channels[channel].get(), timeout=timeout)\<close>. With a timeout that
  is zero or negative \<^verbatim>\<open>wait_for\<close> cancels the \<^verbatim>\<open>get\<close> before it runs and raises
  \<^verbatim>\<open>TimeoutError\<close>, whatever the queue holds. Otherwise \<^verbatim>\<open>Queue.get\<close> takes the oldest
  queued message or waits for the next \<^verbatim>\<open>put\<close>; \<^verbatim>\<open>wait_for\<close> raises \<^verbatim>\<open>TimeoutError\<close> when the
  wait is not over by the deadline, and with \<^verbatim>\<open>timeout=None\<close> it waits without a deadline.
  What other coroutines do during the wait is the parameter \<open>arrival\<close>: the message put
  on the queue before the deadline, if there is one.
\<close>

definition get_message ::
  "string \<Rightarrow> rat option \<Rightarrow> py_any option \<Rightarrow> memory_backend \<Rightarrow> py_any outcome \<times> memory_backend" where
  "get_message channel timeout arrival b =
     (case channels b channel of
        None \<Rightarrow> (Returns PyNone, b)
      | Some q \<Rightarrow>
          if (case timeout of None \<Rightarrow> False | Some t \<Rightarrow> t \<le> 0) then
            (Raises (py_raise TimeoutError []), b)
          else
            (case q of
               m # rest \<Rightarrow> (Returns m, b\<lparr>channels := (channels b)(channel \<mapsto> rest)\<rparr>)
             | [] \<Rightarrow>
                 (case arrival of
                    Some m \<Rightarrow> (Returns m, b)
                  | None \<Rightarrow>
                      (case timeout of
                         None \<Rightarrow> (NeverReturns, b)
                       | Some t \<Rightarrow> (Raises (py_raise TimeoutError []), b)))))"

text \<open>\<^verbatim>\<open>receive\<close> is an alias of \<^verbatim>\<open>get_message\<close>.\<close>

definition receive ::
  "string \<Rightarrow> rat option \<Rightarrow> py_any option \<Rightarrow> memory_backend \<Rightarrow> py_any outcome \<times> memory_backend" where
  "receive channel timeout arrival b = get_message channel timeout arrival b"

definition registry_add_connection ::
  "string \<Rightarrow> string option \<Rightarrow> py_any \<Rightarrow> string set \<Rightarrow> rat \<Rightarrow> memory_backend \<Rightarrow> memory_backend" where
  "registry_add_connection connection_id uid md gs hb b =
     b\<lparr>registry_connections := insert connection_id (registry_connections b),
       registry_connection_data := (registry_connection_data b)(connection_id \<mapsto>
          \<lparr>entry_user_id = uid, entry_metadata = md, entry_groups = gs,
           entry_heartbeat_timeout = hb\<rparr>),
       registry_user_connections :=
         (case uid of
            None \<Rightarrow> registry_user_connections b
          | Some u \<Rightarrow>
              if u \<noteq> [] then
                (registry_user_connections b)(u \<mapsto> insert connection_id
                   (case registry_user_connections b u of None \<Rightarrow> {} | Some s \<Rightarrow> s))
              else registry_user_connections b)\<rparr>"

definition registry_remove_connection ::
  "string \<Rightarrow> string option \<Rightarrow> memory_backend \<Rightarrow> memory_backend" where
  "registry_remove_connection connection_id uid b =
     b\<lparr>registry_connections := registry_connections b - {connection_id},
       registry_connection_data := (registry_connection_data b)(connection_id := None),
       registry_user_connections :=
         (case uid of
            None \<Rightarrow> registry_user_connections b
          | Some u \<Rightarrow>
              if u \<noteq> [] then
                (case registry_user_connections b u of
                   None \<Rightarrow> registry_user_connections b
                 | Some s \<Rightarrow>
                     if s - {connection_id} = {} then (registry_user_connections b)(u := None)
                     else (registry_user_connections b)(u \<mapsto> s - {connection_id}))
              else registry_user_connections b)\<rparr>"

definition registry_update_groups :: "string \<Rightarrow> string set \<Rightarrow> memory_backend \<Rightarrow> memory_backend" where
  "registry_update_groups connection_id gs b =
     (case registry_connection_data b connection_id of
        None \<Rightarrow> b
      | Some e \<Rightarrow> b\<lparr>registry_connection_data :=
                        (registry_connection_data b)(connection_id \<mapsto> e\<lparr>entry_groups := gs\<rparr>)\<rparr>)"

definition registry_get_connection_groups :: "string \<Rightarrow> memory_backend \<Rightarrow> string set" where
  "registry_get_connection_groups connection_id b =
     (case registry_connection_data b connection_id of None \<Rightarrow> {} | Some e \<Rightarrow> entry_groups e)"

definition registry_get_user_connections :: "string \<Rightarrow> memory_backend \<Rightarrow> string set" where
  "registry_get_user_connections u b =
     (case registry_user_connections b u of None \<Rightarrow> {} | Some s \<Rightarrow> s)"

text \<open>Sequences of registry calls against one backend instance.\<close>

datatype registry_op =
    RegistryAdd string "string option" py_any "string set" rat
  | RegistryRemove string "string option"
  | RegistryUpdateGroups string "string set"

fun apply_registry_op :: "memory_backend \<Rightarrow> registry_op \<Rightarrow> memory_backend" where
  "apply_registry_op b (RegistryAdd c uid md gs hb) = registry_add_connection c uid md gs hb b"
| "apply_registry_op b (RegistryRemove c uid) = registry_remove_connection c uid b"
| "apply_registry_op b (RegistryUpdateGroups c gs) = registry_update_groups c gs b"

definition run_registry_ops :: "registry_op list \<Rightarrow> memory_backend \<Rightarrow> memory_backend" where
  "run_registry_ops ops b = foldl apply_registry_op b ops"

text \<open>The connection ids of the primary map and of the secondary index.\<close>

definition primary_ids :: "memory_backend \<Rightarrow> string set" where
  "primary_ids b = dom (registry_connection_data b)"

definition secondary_ids :: "memory_backend \<Rightarrow> string set" where
  "secondary_ids b = \<Union> (ran (registry_user_connections b))"

text \<open>The connections of the primary map that are registered with a non-empty user id.\<close>

definition identified_ids :: "memory_backend \<Rightarrow> string set" where
  "identified_ids b =
     {c. \<exists>e u. registry_connection_data b c = Some e \<and> entry_user_id e = Some u \<and> u \<noteq> []}"

text \<open>
  A caller is consistent when it passes to \<open>registry_remove_connection\<close> the user id the
  connection is registered under, and registers an id that is already present only under
  the user id it already has.
\<close>

fun consistent_op :: "memory_backend \<Rightarrow> registry_op \<Rightarrow> bool" where
  "consistent_op b (RegistryAdd c uid md gs hb) =
     (case registry_connection_data b c of None \<Rightarrow> True | Some e \<Rightarrow> entry_user_id e = uid)"
| "consistent_op b (RegistryRemove c uid) =
     (case registry_connection_data b c of None \<Rightarrow> True | Some e \<Rightarrow> entry_user_id e = uid)"
| "consistent_op b (RegistryUpdateGroups c gs) = True"

fun consistent_ops :: "memory_backend \<Rightarrow> registry_op list \<Rightarrow> bool" where
  "consistent_ops b [] = True"
| "consistent_ops b (x # xs) = (consistent_op b x \<and> consistent_ops (apply_registry_op b x) xs)"

definition registered_users_indexed :: "memory_backend \<Rightarrow> bool" where
  "registered_users_indexed b \<longleftrightarrow>
     (\<forall>c e u. registry_connection_data b c = Some e \<and> entry_user_id e = Some u \<and> u \<noteq> []
        \<longrightarrow> c \<in> registry_get_user_connections u b)"

definition index_entries_registered :: "memory_backend \<Rightarrow> bool" where
  "index_entries_registered b \<longleftrightarrow>
     (\<forall>u c. c \<in> registry_get_user_connections u b
        \<longrightarrow> u \<noteq> [] \<and> (\<exists>e. registry_connection_data b c = Some e \<and> entry_user_id e = Some u))"

section \<open>Message and Connection (core/typed.py)\<close>

datatype MessagePriority = HIGH | NORMAL | LOW

fun priority_value :: "MessagePriority \<Rightarrow> string" where
  "priority_value HIGH = ''high''"
| "priority_value NORMAL = ''normal''"
| "priority_value LOW = ''low''"

text \<open>
  The dataclass \<^verbatim>\<open>Message\<close>. The annotations are not enforced: \<^verbatim>\<open>handle_message\<close> stores
  whatever JSON values the client sent as \<^verbatim>\<open>type\<close>, \<^verbatim>\<open>metadata\<close> and \<^verbatim>\<open>ttl_seconds\<close>, so
  these fields hold any value. \<^verbatim>\<open>created_at\<close> is the clock reading at construction.
\<close>

record message =
  type :: py_any
  data :: py_any
  sender_id :: "string option"
  group :: "string option"
  metadata :: py_any
  priority :: MessagePriority
  ttl_seconds :: py_any
  created_at :: rat

text \<open>
  \<^verbatim>\<open>is_expired\<close> at clock reading \<open>now\<close>: false without a TTL, otherwise the comparison
  \<^verbatim>\<open>(time.time() - self.created_at) > self.ttl_seconds\<close>, which raises \<^verbatim>\<open>TypeError\<close> when the
  TTL is not a number (a boolean counts as 0 or 1).
\<close>

definition is_expired :: "rat \<Rightarrow> message \<Rightarrow> exn + bool" where
  "is_expired now m =
     (case ttl_seconds m of
        PyNone \<Rightarrow> Inr False
      | PyInt i \<Rightarrow> Inr (float_gt (float_sub now (created_at m)) (of_int i))
      | PyFloat r \<Rightarrow> Inr (float_gt (float_sub now (created_at m)) r)
      | PyBool b \<Rightarrow> Inr (float_gt (float_sub now (created_at m)) (if b then 1 else 0))
      | _ \<Rightarrow> Inl (py_raise TypeError ''unsupported operand for >''))"

definition to_dict :: "message \<Rightarrow> py_any" where
  "to_dict m =
     PyDict [(''type'', type m),
             (''data'', data m),
             (''sender_id'', py_opt_str (sender_id m)),
             (''group'', py_opt_str (group m)),
             (''metadata'', metadata m),
             (''priority'', PyStr (priority_value (priority m))),
             (''ttl_seconds'', ttl_seconds m),
             (''created_at'', PyFloat (created_at m))]"

text \<open>
  What is written to a connection's transport with \<^verbatim>\<open>websocket.send_json\<close>: a dictionary,
  or the response envelope \<^verbatim>\<open>e.to_response().to_dict()\<close> of an error. The envelope is built
  by \<^verbatim>\<open>core/exceptions.py\<close>, which is not among the sources; a frame records the error it
  is built from.
\<close>

datatype frame = JsonFrame py_any | ErrorFrame exn

text \<open>
  Modelled from the spec: \<^verbatim>\<open>Connection\<close> (\<^verbatim>\<open>core/connections/state.py\<close>) is not among the
  sources. Section 3 of the specification gives it a unique \<open>channel_name\<close>, an optional
  \<open>user_id\<close>, a \<open>last_heartbeat\<close> time stamp and byte and activity counters;
  \<open>update_heartbeat\<close> sets \<open>last_heartbeat\<close> to the current time and \<open>update_activity\<close>
  the last-activity time. \<open>websocket\<close> is the list of frames sent on the transport so far.
\<close>

record connection =
  channel_name :: string
  user_id :: "string option"
  bytes_received :: int
  last_heartbeat :: rat
  last_activity :: rat
  websocket :: "frame list"

definition update_heartbeat :: "rat \<Rightarrow> connection \<Rightarrow> connection" where
  "update_heartbeat now c = c\<lparr>last_heartbeat := now\<rparr>"

definition update_activity :: "rat \<Rightarrow> connection \<Rightarrow> connection" where
  "update_activity now c = c\<lparr>last_activity := now\<rparr>"

definition send_json :: "frame \<Rightarrow> connection \<Rightarrow> connection" where
  "send_json f c = c\<lparr>websocket := websocket c @ [f]\<rparr>"


section \<open>TokenBucketRateLimiter (core/middleware/rate_limit.py)\<close>

text \<open>
  The limiter object: three integer parameters and the dictionary
  \<^verbatim>\<open>buckets: Dict[str, Tuple[float, int]]\<close> of \<open>(last_check, tokens)\<close> pairs.
\<close>

record token_bucket_rate_limiter =
  rate :: int
  window :: int
  burst :: int
  buckets :: "string \<rightharpoonup> rat \<times> int"

definition TokenBucketRateLimiter :: "int \<Rightarrow> int \<Rightarrow> int \<Rightarrow> token_bucket_rate_limiter" where
  "TokenBucketRateLimiter r window_seconds burst_size =
     \<lparr>rate = r, window = window_seconds, burst = burst_size, buckets = Map.empty\<rparr>"

text \<open>
  \<^verbatim>\<open>allow(key)\<close>, with \<open>now\<close> the value \<^verbatim>\<open>time.time()\<close> returns at the call. The refill is
  \<^verbatim>\<open>int(elapsed * (self.rate / self.window))\<close>: the quotient of the two integers is taken
  first, as a float, then multiplied by the float \<open>elapsed\<close>, and the product is cut to
  an integer. The quotient and the conversion can raise; the exception leaves \<^verbatim>\<open>allow\<close>
  before anything is stored.
\<close>

definition refill :: "token_bucket_rate_limiter \<Rightarrow> py_float \<Rightarrow> exn + int" where
  "refill l elapsed =
     (case int_truediv (rate l) (window l) of
        Inl e \<Rightarrow> Inl e
      | Inr q \<Rightarrow> py_int (float_mul elapsed q))"

definition allow ::
  "rat \<Rightarrow> string \<Rightarrow> token_bucket_rate_limiter \<Rightarrow> exn + bool \<times> token_bucket_rate_limiter" where
  "allow now key l =
     (case buckets l key of
        None \<Rightarrow> Inr (True, l\<lparr>buckets := (buckets l)(key \<mapsto> (now, burst l - 1))\<rparr>)
      | Some (last_check, tokens) \<Rightarrow>
          (let elapsed = float_sub now last_check
           in case refill l elapsed of
                Inl e \<Rightarrow> Inl e
              | Inr r \<Rightarrow>
                  (let tokens' = min (burst l) (tokens + r)
                   in if 0 < tokens' then
                        Inr (True, l\<lparr>buckets := (buckets l)(key \<mapsto> (now, tokens' - 1))\<rparr>)
                      else Inr (False, l\<lparr>buckets := (buckets l)(key \<mapsto> (now, 0))\<rparr>))))"

text \<open>
  The refill as the specification words it, in exact arithmetic:
  \<open>floor((t - last_check) * rate / window)\<close>, and \<open>allow\<close> with that refill.
\<close>

definition spec_refill :: "token_bucket_rate_limiter \<Rightarrow> rat \<Rightarrow> rat \<Rightarrow> int" where
  "spec_refill l t last_check = \<lfloor>(t - last_check) * of_int (rate l) / of_int (window l)\<rfloor>"

definition spec_allow ::
  "rat \<Rightarrow> string \<Rightarrow> token_bucket_rate_limiter \<Rightarrow> bool \<times> token_bucket_rate_limiter" where
  "spec_allow t key l =
     (case buckets l key of
        None \<Rightarrow> (True, l\<lparr>buckets := (buckets l)(key \<mapsto> (t, burst l - 1))\<rparr>)
      | Some (last_check, tokens) \<Rightarrow>
          (let refilled = min (burst l) (tokens + spec_refill l t last_check)
           in if 0 < refilled then
                (True, l\<lparr>buckets := (buckets l)(key \<mapsto> (t, refilled - 1))\<rparr>)
              else (False, l\<lparr>buckets := (buckets l)(key \<mapsto> (t, 0))\<rparr>)))"

text \<open>
  The three float operations of a refill are exact: the elapsed time, the quotient of rate
  and window, and their product.
\<close>

definition refill_exact :: "token_bucket_rate_limiter \<Rightarrow> rat \<Rightarrow> rat \<Rightarrow> bool" where
  "refill_exact l t last_check \<longleftrightarrow>
     float_exact (t - last_check)
   \<and> float_exact (of_int (rate l) / of_int (window l))
   \<and> float_exact ((t - last_check) * (of_int (rate l) / of_int (window l)))"

text \<open>
  A run of calls for one key at the given times: the answers in order, stopping with the
  error if a call raises.
\<close>

fun allow_calls ::
  "rat list \<Rightarrow> string \<Rightarrow> token_bucket_rate_limiter \<Rightarrow> exn + bool list \<times> token_bucket_rate_limiter" where
  "allow_calls [] key l = Inr ([], l)"
| "allow_calls (t # ts) key l =
     (case allow t key l of
        Inl e \<Rightarrow> Inl e
      | Inr (ok, l') \<Rightarrow>
          (case allow_calls ts key l' of
             Inl e \<Rightarrow> Inl e
           | Inr (oks, l'') \<Rightarrow> Inr (ok # oks, l'')))"


section \<open>Middleware (core/middleware/base.py, auth.py, validation.py)\<close>

text \<open>
  A middleware object: its \<^verbatim>\<open>process\<close> method and the optional \<^verbatim>\<open>next_middleware\<close>.
  \<^verbatim>\<open>process\<close> is given as a function of the message and the connection, whose result is
  the raised exception, \<^verbatim>\<open>None\<close> (drop) or a message. \<^verbatim>\<open>__call__\<close> runs \<^verbatim>\<open>process\<close> and
  passes a message on to the next middleware when there is one.
\<close>

datatype middleware =
  Middleware (process: "message \<Rightarrow> connection \<Rightarrow> exn + message option")
             (next_middleware: "middleware option")

fun call_middleware :: "middleware \<Rightarrow> message \<Rightarrow> connection \<Rightarrow> exn + message option" where
  "call_middleware (Middleware proc nxt) m c =
     (case proc m c of
        Inl e \<Rightarrow> Inl e
      | Inr None \<Rightarrow> Inr None
      | Inr (Some processed_message) \<Rightarrow>
          (case nxt of
             None \<Rightarrow> Inr (Some processed_message)
           | Some mw \<Rightarrow> call_middleware mw processed_message c))"

text \<open>
  \<^verbatim>\<open>AuthenticationMiddleware.process\<close>. The test \<^verbatim>\<open>message.type in {"ping", "pong", "connect"}\<close>
  hashes the type and raises \<^verbatim>\<open>TypeError\<close> for a list or dictionary;
  \<^verbatim>\<open>not getattr(connection, "user_id", None)\<close> holds for \<^verbatim>\<open>None\<close> and for the empty string.
\<close>

definition authentication_process :: "message \<Rightarrow> connection \<Rightarrow> exn + message option" where
  "authentication_process m c =
     (if unhashable (type m) then Inl (py_raise TypeError ''unhashable type'')
      else if type m \<in> {PyStr ''ping'', PyStr ''pong'', PyStr ''connect''} then Inr (Some m)
      else if \<not> truthy_str (user_id c) then
        Inl \<lparr>exn_class = AuthenticationError,
             exn_message = ''Authentication required'',
             exn_code = None,
             exn_context = create_error_context
               [(''connection_id'', PyStr (channel_name c)),
                (''message_type'', type m),
                (''component'', PyStr ''authentication_middleware'')],
             exn_details = []\<rparr>
      else Inr (Some m))"

text \<open>
  \<^verbatim>\<open>ValidationMiddleware.process\<close>, with \<open>max_message_size\<close> the constructor argument,
  \<open>dumps\<close> standing for \<^verbatim>\<open>json.dumps\<close> (the text, or the message of the exception it raises
  for a value it cannot serialise) and \<open>now\<close> the clock reading when \<^verbatim>\<open>is_expired\<close> runs.
  The \<^verbatim>\<open>try\<close> block covers the size check only: an exception of \<^verbatim>\<open>json.dumps\<close> is turned
  into a \<^verbatim>\<open>ValidationError\<close>, an exception of \<^verbatim>\<open>is_expired\<close> is not caught.
\<close>

definition validation_process ::
  "int \<Rightarrow> (py_any \<Rightarrow> string + string) \<Rightarrow> rat \<Rightarrow> message \<Rightarrow> connection \<Rightarrow> exn + message option" where
  "validation_process max_message_size dumps now m c =
     (case dumps (to_dict m) of
        Inl exc \<Rightarrow>
          Inl \<lparr>exn_class = ValidationError,
               exn_message = ''Validation failed: '' @ exc,
               exn_code = None,
               exn_context = create_error_context
                 [(''user_id'', py_opt_str (user_id c)),
                  (''connection_id'', PyStr (channel_name c)),
                  (''message_type'', type m),
                  (''component'', PyStr ''validation_middleware''),
                  (''original_error'', PyStr exc)],
               exn_details = []\<rparr>
      | Inr text \<Rightarrow>
          (let size = int (length text)
           in if max_message_size < size then
                Inl \<lparr>exn_class = ValidationError,
                     exn_message = ''Message too large: '' @ str_int size @ '' bytes (max: ''
                                     @ str_int max_message_size @ '')'',
                     exn_code = None,
                     exn_context = create_error_context
                       [(''user_id'', py_opt_str (user_id c)),
                        (''connection_id'', PyStr (channel_name c)),
                        (''message_type'', type m),
                        (''component'', PyStr ''validation_middleware''),
                        (''message_size'', PyInt size),
                        (''max_size'', PyInt max_message_size)],
                     exn_details = []\<rparr>
              else
                (case is_expired now m of
                   Inl e \<Rightarrow> Inl e
                 | Inr True \<Rightarrow> Inr None
                 | Inr False \<Rightarrow> Inr (Some m))))"

text \<open>\<^verbatim>\<open>LoggingMiddleware.process\<close> writes a debug record and returns the message.\<close>

definition logging_process :: "message \<Rightarrow> connection \<Rightarrow> exn + message option" where
  "logging_process m c = Inr (Some m)"


section \<open>BaseConsumer.handle_message (core/consumer/base.py, fastapi_channel/consumer/base.py)\<close>

text \<open>
  The fields of the consumer that \<^verbatim>\<open>handle_message\<close> uses: its own connection and the list
  \<^verbatim>\<open>middleware_stacks\<close>.
\<close>

record base_consumer =
  connection :: connection
  middleware_stacks :: "middleware list"

text \<open>\<^verbatim>\<open>data.get(key)\<close> and \<^verbatim>\<open>data.get(key, default)\<close> on the parsed dictionary.\<close>

definition dict_get :: "(string \<times> py_any) list \<Rightarrow> string \<Rightarrow> py_any \<Rightarrow> py_any" where
  "dict_get d key dflt = (case map_of d key of None \<Rightarrow> dflt | Some v \<Rightarrow> v)"

text \<open>
  Lines 74 to 79: the priority is looked up in \<^verbatim>\<open>MessagePriority._value2member_map_\<close>, which
  raises \<^verbatim>\<open>TypeError\<close> for an unhashable value; a value that is not one of the three
  strings gives \<^verbatim>\<open>NORMAL\<close>.
\<close>

definition parse_priority :: "py_any \<Rightarrow> exn + MessagePriority" where
  "parse_priority priority_value' =
     (if unhashable priority_value' then Inl (py_raise TypeError ''unhashable type'')
      else if priority_value' = PyStr ''high'' then Inr HIGH
      else if priority_value' = PyStr ''normal'' then Inr NORMAL
      else if priority_value' = PyStr ''low'' then Inr LOW
      else Inr NORMAL)"

text \<open>
  Lines 80 to 87: the \<^verbatim>\<open>Message\<close> built from the parsed dictionary. \<^verbatim>\<open>sender_id\<close> is the
  connection's \<^verbatim>\<open>channel_name\<close>; \<^verbatim>\<open>group\<close> keeps its default \<^verbatim>\<open>None\<close>; \<^verbatim>\<open>created_at\<close> is the
  clock reading \<open>now\<close>.
\<close>

definition construct_message ::
  "connection \<Rightarrow> (string \<times> py_any) list \<Rightarrow> rat \<Rightarrow> exn + message" where
  "construct_message c d now =
     (case parse_priority (dict_get d ''priority'' (PyStr (priority_value NORMAL))) of
        Inl e \<Rightarrow> Inl e
      | Inr p \<Rightarrow>
          Inr \<lparr>type = dict_get d ''type'' (PyStr ''message''),
               data = dict_get d ''data'' PyNone,
               sender_id = Some (channel_name c),
               group = None,
               metadata = dict_get d ''metadata'' PyNone,
               priority = p,
               ttl_seconds = dict_get d ''ttl_seconds'' PyNone,
               created_at = now\<rparr>)"

text \<open>
  Lines 92 to 96: each middleware of the list is called in turn; a dropped message ends
  the loop.
\<close>

fun run_stacks :: "middleware list \<Rightarrow> message \<Rightarrow> connection \<Rightarrow> exn + message option" where
  "run_stacks [] m c = Inr (Some m)"
| "run_stacks (mw # mws) m c =
     (case call_middleware mw m c of
        Inl e \<Rightarrow> Inl e
      | Inr None \<Rightarrow> Inr None
      | Inr (Some m') \<Rightarrow> run_stacks mws m' c)"

text \<open>
  Lines 92 to 98: the pipeline, then the application's \<^verbatim>\<open>receive\<close> hook, an abstract method.
  The hook is a function of the message and the consumer's connection, which it may
  change (it can send frames); it returns the exception it raises, if any.
\<close>

definition pipeline_and_receive ::
  "(message \<Rightarrow> connection \<Rightarrow> exn option \<times> connection) \<Rightarrow> message \<Rightarrow> base_consumer
     \<Rightarrow> (exn + unit) \<times> base_consumer" where
  "pipeline_and_receive receive_hook m self =
     (case run_stacks (middleware_stacks self) m (connection self) of
        Inl e \<Rightarrow> (Inl e, self)
      | Inr None \<Rightarrow> (Inr (), self)
      | Inr (Some m') \<Rightarrow>
          (case receive_hook m' (connection self) of
             (Some e, c') \<Rightarrow> (Inl e, self\<lparr>connection := c'\<rparr>)
           | (None, c') \<Rightarrow> (Inr (), self\<lparr>connection := c'\<rparr>)))"

text \<open>
  The consumer after lines 89 and 90: the byte counter and the activity time of its
  connection are updated before the pipeline runs.
\<close>

definition count_received :: "rat \<Rightarrow> string \<Rightarrow> base_consumer \<Rightarrow> base_consumer" where
  "count_received now raw_message self =
     self\<lparr>connection := update_activity now
       ((connection self)\<lparr>bytes_received :=
          bytes_received (connection self) + int (length raw_message)\<rparr>)\<rparr>"

text \<open>
  Lines 67 to 98, the body of the \<^verbatim>\<open>try\<close> statement. \<open>loads\<close> stands for \<^verbatim>\<open>json.loads\<close>: the
  parsed value, or the exception it raises (a \<^verbatim>\<open>JSONDecodeError\<close> for text that is not
  JSON, a \<^verbatim>\<open>RecursionError\<close> for text nested too deeply). \<^verbatim>\<open>data.get\<close> raises
  \<^verbatim>\<open>AttributeError\<close> when the parsed value is not a dictionary.
\<close>

definition try_body ::
  "(string \<Rightarrow> exn + py_any) \<Rightarrow> (message \<Rightarrow> connection \<Rightarrow> exn option \<times> connection) \<Rightarrow> rat
     \<Rightarrow> string \<Rightarrow> base_consumer \<Rightarrow> (exn + unit) \<times> base_consumer" where
  "try_body loads receive_hook now raw_message self =
     (case loads raw_message of
        Inl e \<Rightarrow> (Inl e, self)
      | Inr (PyDict d) \<Rightarrow>
          (let message_type = dict_get d ''type'' (PyStr ''message'')
           in if message_type = PyStr ''pong'' then
                (Inr (), self\<lparr>connection := update_heartbeat now (connection self)\<rparr>)
              else
                (case construct_message (connection self) d now of
                   Inl e \<Rightarrow> (Inl e, self)
                 | Inr m \<Rightarrow>
                     pipeline_and_receive receive_hook m (count_received now raw_message self)))
      | Inr _ \<Rightarrow> (Inl (py_raise AttributeError ''object has no attribute get''), self))"

text \<open>
  The \<^verbatim>\<open>ValidationError\<close> raised by the first handler (lines 100 to 111), for the caught
  exception \<open>e\<close>; \<^verbatim>\<open>str(e)\<close> is its message.
\<close>

definition invalid_json_error :: "connection \<Rightarrow> exn \<Rightarrow> exn" where
  "invalid_json_error c e =
     \<lparr>exn_class = ValidationError,
      exn_message = ''Invalid JSON format'',
      exn_code = Some ''INVALID_JSON'',
      exn_context = create_error_context
        [(''user_id'', py_opt_str (user_id c)),
         (''connection_id'', PyStr (channel_name c)),
         (''component'', PyStr ''consumer'')],
      exn_details = [(''parse_error'', PyStr (exn_message e))]\<rparr>"


text \<open>
  An \<^verbatim>\<open>except\<close> clause takes an exception whose class is the named class or a subclass
  of it. The class hierarchy of \<^verbatim>\<open>core/exceptions.py\<close> is not among the sources, so the
  relation "is a proper subclass of" is the parameter \<open>isa\<close>.
\<close>

definition instance_of :: "(exn_class \<Rightarrow> exn_class \<Rightarrow> bool) \<Rightarrow> exn_class \<Rightarrow> exn_class \<Rightarrow> bool" where
  "instance_of isa c d \<longleftrightarrow> c = d \<or> isa c d"

definition typed_handler_takes :: "(exn_class \<Rightarrow> exn_class \<Rightarrow> bool) \<Rightarrow> exn \<Rightarrow> bool" where
  "typed_handler_takes isa e \<longleftrightarrow>
     instance_of isa (exn_class e) AuthenticationError
   \<or> instance_of isa (exn_class e) ValidationError
   \<or> instance_of isa (exn_class e) MessageError"

text \<open>
  The two handlers of \<^verbatim>\<open>handle_message\<close> in \<^verbatim>\<open>core/consumer/base.py\<close> (lines 100 to 115),
  tried in order on what the \<^verbatim>\<open>try\<close> body raised. The first raises a \<^verbatim>\<open>ValidationError\<close>;
  an exception raised inside a handler is not seen by the handlers that follow, so it
  leaves \<^verbatim>\<open>handle_message\<close>. The second sends the response envelope on the consumer's own
  transport and returns. An exception that no handler takes leaves \<^verbatim>\<open>handle_message\<close> as
  it is.
\<close>

definition except_handlers ::
  "(exn_class \<Rightarrow> exn_class \<Rightarrow> bool) \<Rightarrow> (exn + unit) \<times> base_consumer \<Rightarrow> (exn + unit) \<times> base_consumer" where
  "except_handlers isa result =
     (case result of
        (Inr u, self') \<Rightarrow> (Inr u, self')
      | (Inl e, self') \<Rightarrow>
          if instance_of isa (exn_class e) JSONDecodeError then
            (Inl (invalid_json_error (connection self') e), self')
          else if typed_handler_takes isa e then
            (Inr (), self'\<lparr>connection := send_json (ErrorFrame e) (connection self')\<rparr>)
          else (Inl e, self'))"

definition handle_message ::
  "(exn_class \<Rightarrow> exn_class \<Rightarrow> bool) \<Rightarrow> (string \<Rightarrow> exn + py_any)
     \<Rightarrow> (message \<Rightarrow> connection \<Rightarrow> exn option \<times> connection) \<Rightarrow> rat
     \<Rightarrow> string \<Rightarrow> base_consumer \<Rightarrow> (exn + unit) \<times> base_consumer" where
  "handle_message isa loads receive_hook now raw_message self =
     except_handlers isa (try_body loads receive_hook now raw_message self)"

text \<open>
  \<^verbatim>\<open>handle_message\<close> of \<^verbatim>\<open>fastapi_channel/consumer/base.py\<close>: the same body, with one
  optional middleware chain \<^verbatim>\<open>middleware_stack\<close> in place of the list, and the first handler
  only.
\<close>

record channel_consumer =
  consumer_connection :: connection
  middleware_stack :: "middleware option"

definition as_base_consumer :: "channel_consumer \<Rightarrow> base_consumer" where
  "as_base_consumer self =
     \<lparr>connection = consumer_connection self,
      middleware_stacks = (case middleware_stack self of None \<Rightarrow> [] | Some mw \<Rightarrow> [mw])\<rparr>"

definition fastapi_channel_except_handlers ::
  "(exn_class \<Rightarrow> exn_class \<Rightarrow> bool) \<Rightarrow> channel_consumer \<Rightarrow> (exn + unit) \<times> base_consumer
     \<Rightarrow> (exn + unit) \<times> channel_consumer" where
  "fastapi_channel_except_handlers isa self result =
     (case result of
        (Inr u, s) \<Rightarrow> (Inr u, self\<lparr>consumer_connection := connection s\<rparr>)
      | (Inl e, s) \<Rightarrow>
          if instance_of isa (exn_class e) JSONDecodeError then
            (Inl (invalid_json_error (connection s) e), self\<lparr>consumer_connection := connection s\<rparr>)
          else (Inl e, self\<lparr>consumer_connection := connection s\<rparr>))"

definition fastapi_channel_handle_message ::
  "(exn_class \<Rightarrow> exn_class \<Rightarrow> bool) \<Rightarrow> (string \<Rightarrow> exn + py_any)
     \<Rightarrow> (message \<Rightarrow> connection \<Rightarrow> exn option \<times> connection) \<Rightarrow> rat
     \<Rightarrow> string \<Rightarrow> channel_consumer \<Rightarrow> (exn + unit) \<times> channel_consumer" where
  "fastapi_channel_handle_message isa loads receive_hook now raw_message self =
     fastapi_channel_except_handlers isa self
       (try_body loads receive_hook now raw_message (as_base_consumer self))"

text \<open>
  Instances of the parameters for examples. \<open>example_loads\<close> answers as \<^verbatim>\<open>json.loads\<close> does
  on the three frames it lists and on the text \<^verbatim>\<open>oops\<close>, the only texts at which it is
  evaluated; it does not stand for \<^verbatim>\<open>json.loads\<close> on any other text, where its answer is the
  one for \<^verbatim>\<open>oops\<close>. \<open>flat_isa\<close> is a class hierarchy in which
  no class is a proper subclass of another. There are a hook that accepts every message
  and one that rejects every message, a \<^verbatim>\<open>json.dumps\<close> that raises as Python does for a
  value holding a set, one that returns a given text, a connection and a message.
\<close>

definition example_loads :: "string \<Rightarrow> exn + py_any" where
  "example_loads raw =
     (if raw = ''{\"type\": \"chat\", \"sender_id\": \"admin\"}'' then
        Inr (PyDict [(''type'', PyStr ''chat''), (''sender_id'', PyStr ''admin'')])
      else if raw = ''{\"type\": \"chat\"}'' then Inr (PyDict [(''type'', PyStr ''chat'')])
      else if raw = ''{\"type\": \"pong\"}'' then Inr (PyDict [(''type'', PyStr ''pong'')])
      else if raw = ''oops'' then
        Inl (py_raise JSONDecodeError ''Expecting value: line 1 column 1 (char 0)'')
      else Inl (py_raise JSONDecodeError ''Expecting value: line 1 column 1 (char 0)''))"

text \<open>
  A \<^verbatim>\<open>json.loads\<close> at a text nested too deeply, where Python raises \<^verbatim>\<open>RecursionError\<close>.
\<close>

definition deep_loads :: "string \<Rightarrow> exn + py_any" where
  "deep_loads raw = Inl (py_raise RecursionError ''maximum recursion depth exceeded'')"

definition flat_isa :: "exn_class \<Rightarrow> exn_class \<Rightarrow> bool" where
  "flat_isa a b \<longleftrightarrow> False"

definition accepting_hook :: "message \<Rightarrow> connection \<Rightarrow> exn option \<times> connection" where
  "accepting_hook m c = (None, c)"

definition failing_dumps :: "py_any \<Rightarrow> string + string" where
  "failing_dumps v = Inl ''Object of type set is not JSON serializable''"

definition fixed_dumps :: "string \<Rightarrow> py_any \<Rightarrow> string + string" where
  "fixed_dumps text v = Inr text"

definition rejecting_hook :: "message \<Rightarrow> connection \<Rightarrow> exn option \<times> connection" where
  "rejecting_hook m c = (Some (py_raise MessageError ''rejected''), c)"

definition example_connection :: "string \<Rightarrow> string option \<Rightarrow> connection" where
  "example_connection name uid =
     \<lparr>channel_name = name, user_id = uid, bytes_received = 0, last_heartbeat = 0,
      last_activity = 0, websocket = []\<rparr>"

definition example_message :: "py_any \<Rightarrow> py_any \<Rightarrow> py_any \<Rightarrow> message" where
  "example_message t d ttl =
     \<lparr>type = t, data = d, sender_id = Some ''c1'', group = None, metadata = PyNone,
      priority = NORMAL, ttl_seconds = ttl, created_at = 0\<rparr>"

section \<open>Properties of the group index\<close>

lemma no_empty_group_add: "no_empty_group b \<Longrightarrow> no_empty_group (group_add g c b)"
  by (auto simp: no_empty_group_def group_add_def Let_def split: option.splits if_splits)

lemma no_empty_group_discard: "no_empty_group b \<Longrightarrow> no_empty_group (group_discard g c b)"
  by (auto simp: no_empty_group_def group_discard_def Let_def split: option.splits if_splits)

lemma no_empty_group_foldl:
  "no_empty_group b \<Longrightarrow> no_empty_group (foldl apply_group_op b ops)"
proof (induction ops arbitrary: b)
  case Nil
  then show ?case by simp
next
  case (Cons x xs)
  have "no_empty_group (apply_group_op b x)"
    using Cons.prems by (cases x) (simp_all add: no_empty_group_add no_empty_group_discard)
  then show ?case using Cons.IH by simp
qed

lemma no_empty_group_reachable: "no_empty_group (run_group_ops ops BaseBackend)"
  unfolding run_group_ops_def
  by (rule no_empty_group_foldl) (simp add: no_empty_group_def BaseBackend_def)

text \<open>
  C3. After every sequence of \<open>group_add\<close> and \<open>group_discard\<close> calls on a fresh backend,
  a group name is a key of the index iff its channel set is non-empty; discarding the only
  member of a group deletes the key, after which the membership query yields the empty
  set; and the membership query for a name that is not a key yields the empty set.
\<close>

theorem group_index_invariant:
  fixes ops :: "group_op list" and g c :: string
  defines "b \<equiv> run_group_ops ops BaseBackend"
  shows "(g \<in> dom (groups b) \<longleftrightarrow> group_channels g b \<noteq> {})
       \<and> (group_channels g b = {c} \<longrightarrow>
            g \<notin> dom (groups (group_discard g c b))
          \<and> group_channels g (group_discard g c b) = {})
       \<and> (g \<notin> dom (groups b) \<longrightarrow> group_channels g b = {})"
proof -
  have inv: "no_empty_group b"
    unfolding b_def by (rule no_empty_group_reachable)
  have key: "g \<in> dom (groups b) \<longleftrightarrow> group_channels g b \<noteq> {}"
    using inv by (auto simp: no_empty_group_def group_channels_def split: option.splits)
  have last: "group_channels g b = {c} \<longrightarrow>
            g \<notin> dom (groups (group_discard g c b))
          \<and> group_channels g (group_discard g c b) = {}"
    by (auto simp: group_channels_def group_discard_def Let_def split: option.splits)
  have absent: "g \<notin> dom (groups b) \<longrightarrow> group_channels g b = {}"
    by (auto simp: group_channels_def split: option.splits)
  from key last absent show ?thesis by blast
qed

theorem group_index_invariant_witness:
  "group_channels ''room'' (run_group_ops [GroupAdd ''room'' ''c1''] BaseBackend) = {''c1''}
   \<and> ''room'' \<in> dom (groups (run_group_ops [GroupAdd ''room'' ''c1''] BaseBackend))
   \<and> ''room'' \<notin> dom (groups (group_discard ''room'' ''c1''
        (run_group_ops [GroupAdd ''room'' ''c1''] BaseBackend)))
   \<and> ''lobby'' \<notin> dom (groups (run_group_ops [GroupAdd ''room'' ''c1''] BaseBackend))
   \<and> group_channels ''lobby'' (run_group_ops [GroupAdd ''room'' ''c1''] BaseBackend) = {}"
proof -
  have m: "group_channels ''room'' (run_group_ops [GroupAdd ''room'' ''c1''] BaseBackend) = {''c1''}"
    by (simp add: run_group_ops_def group_add_def group_channels_def BaseBackend_def)
  have a: "''lobby'' \<notin> dom (groups (run_group_ops [GroupAdd ''room'' ''c1''] BaseBackend))"
    by (simp add: run_group_ops_def group_add_def BaseBackend_def)
  show ?thesis
    using m a
      group_index_invariant [where ops = "[GroupAdd ''room'' ''c1'']" and g = "''room''" and c = "''c1''"]
      group_index_invariant [where ops = "[GroupAdd ''room'' ''c1'']" and g = "''lobby''" and c = "''c1''"]
    by simp
qed

text \<open>
  C9. Adding a channel to a group twice leaves the backend as one add does. On a backend
  reached from a fresh one by any sequence of adds and discards, discarding a channel that
  is not a member of the group (in particular when the group is not a key of the index)
  returns the backend unchanged; the model has no error branch because the source has
  none on this path.
\<close>

theorem group_add_discard_idempotent:
  fixes ops :: "group_op list" and g c :: string and b0 :: base_backend
  defines "b \<equiv> run_group_ops ops BaseBackend"
  shows "group_add g c (group_add g c b0) = group_add g c b0
       \<and> (c \<notin> group_channels g b \<longrightarrow> group_discard g c b = b)
       \<and> (g \<notin> dom (groups b) \<longrightarrow> group_discard g c b = b)"
proof -
  have twice: "group_add g c (group_add g c b0) = group_add g c b0"
    by (simp add: group_add_def Let_def split: option.splits)
  have inv: "no_empty_group b"
    unfolding b_def by (rule no_empty_group_reachable)
  have nonmember: "c \<notin> group_channels g b \<longrightarrow> group_discard g c b = b"
  proof
    assume nm: "c \<notin> group_channels g b"
    show "group_discard g c b = b"
    proof (cases "groups b g")
      case None
      then show ?thesis by (simp add: group_discard_def)
    next
      case (Some s)
      with nm have "c \<notin> s" by (simp add: group_channels_def)
      then have same: "s - {c} = s" by simp
      from inv Some have "s \<noteq> {}" by (simp add: no_empty_group_def)
      with Some same have "group_discard g c b = b\<lparr>groups := (groups b)(g \<mapsto> s)\<rparr>"
        by (simp add: group_discard_def Let_def)
      also have "(groups b)(g \<mapsto> s) = groups b"
        using Some by (simp add: map_upd_triv)
      finally show ?thesis by simp
    qed
  qed
  have absent: "g \<notin> dom (groups b) \<longrightarrow> group_discard g c b = b"
    by (auto simp: group_discard_def split: option.splits)
  from twice nonmember absent show ?thesis by blast
qed

theorem group_add_discard_idempotent_witness:
  "group_add ''room'' ''c1'' (group_add ''room'' ''c1'' BaseBackend) = group_add ''room'' ''c1'' BaseBackend
   \<and> ''c2'' \<notin> group_channels ''room'' (run_group_ops [GroupAdd ''room'' ''c1''] BaseBackend)
   \<and> group_discard ''room'' ''c2'' (run_group_ops [GroupAdd ''room'' ''c1''] BaseBackend)
       = run_group_ops [GroupAdd ''room'' ''c1''] BaseBackend
   \<and> ''lobby'' \<notin> dom (groups (run_group_ops [GroupAdd ''room'' ''c1''] BaseBackend))
   \<and> group_discard ''lobby'' ''c1'' (run_group_ops [GroupAdd ''room'' ''c1''] BaseBackend)
       = run_group_ops [GroupAdd ''room'' ''c1''] BaseBackend"
proof -
  have nm: "''c2'' \<notin> group_channels ''room'' (run_group_ops [GroupAdd ''room'' ''c1''] BaseBackend)"
    by (simp add: run_group_ops_def group_add_def group_channels_def BaseBackend_def)
  have a: "''lobby'' \<notin> dom (groups (run_group_ops [GroupAdd ''room'' ''c1''] BaseBackend))"
    by (simp add: run_group_ops_def group_add_def BaseBackend_def)
  show ?thesis
    using nm a
      group_add_discard_idempotent [where ops = "[GroupAdd ''room'' ''c1'']" and g = "''room''"
        and c = "''c2''" and ?b0.0 = BaseBackend]
      group_add_discard_idempotent [where ops = "[GroupAdd ''room'' ''c1'']" and g = "''lobby''"
        and c = "''c1''" and ?b0.0 = BaseBackend]
      group_add_discard_idempotent [where ops = "[]" and g = "''room''"
        and c = "''c1''" and ?b0.0 = BaseBackend]
    by simp
qed

section \<open>Properties of new_channel\<close>

declare str_nat.simps [simp del]

lemma digit_val_digit_char: "d < 10 \<Longrightarrow> digit_val (digit_char d) = d"
proof -
  assume "d < 10"
  then have "d \<in> {0,1,2,3,4,5,6,7,8,9}" by auto
  then show ?thesis
    by (auto simp: digit_val_def digit_char_def)
qed

lemma digit_char_in: "d < 10 \<Longrightarrow> digit_char d \<in> set ''0123456789''"
  unfolding digit_char_def by (rule nth_mem) simp

lemma nat_of_str_snoc: "nat_of_str (s @ [c]) = 10 * nat_of_str s + digit_val c"
  by (simp add: nat_of_str_def)

lemma nat_of_str_str_nat: "nat_of_str (str_nat n) = n"
proof (induction n rule: str_nat.induct)
  case (1 n)
  show ?case
  proof (cases "n < 10")
    case True
    then show ?thesis
      by (subst str_nat.simps) (simp add: nat_of_str_def digit_val_digit_char)
  next
    case False
    then have "nat_of_str (str_nat n) = 10 * nat_of_str (str_nat (n div 10)) + digit_val (digit_char (n mod 10))"
      by (subst str_nat.simps) (simp add: nat_of_str_snoc)
    also have "\<dots> = 10 * (n div 10) + n mod 10"
      using 1 False by (simp add: digit_val_digit_char)
    finally show ?thesis by simp
  qed
qed

lemma str_nat_digits: "set (str_nat n) \<subseteq> set ''0123456789''"
proof (induction n rule: str_nat.induct)
  case (1 n)
  show ?case
  proof (cases "n < 10")
    case True
    then show ?thesis
      using digit_char_in [of n] by (subst str_nat.simps) simp
  next
    case False
    have "n mod 10 < 10" by simp
    then have "digit_char (n mod 10) \<in> set ''0123456789''" by (rule digit_char_in)
    with 1 False show ?thesis
      by (subst str_nat.simps) simp
  qed
qed

lemma str_nat_inj: "str_nat n = str_nat m \<Longrightarrow> n = m"
  by (metis nat_of_str_str_nat)

lemma str_nat_no_minus: "str_nat n \<noteq> CHR ''-'' # s"
proof
  assume "str_nat n = CHR ''-'' # s"
  then have "CHR ''-'' \<in> set (str_nat n)" by simp
  with str_nat_digits [of n] show False by auto
qed

lemma str_int_inj: "str_int i = str_int j \<Longrightarrow> i = j"
  using str_nat_no_minus str_nat_no_minus [symmetric]
  by (auto simp: str_int_def dest!: str_nat_inj split: if_splits)

lemma str_int_no_dot: "CHR ''.'' \<notin> set (str_int i)"
  using str_nat_digits [of "nat i"] str_nat_digits [of "nat (- i)"]
  by (auto simp: str_int_def)

lemma last_component_name:
  "last_component (p @ ''.'' @ t @ ''.'' @ str_int k) = str_int k"
proof -
  have nodot: "\<And>c. c \<in> set (rev (str_int k)) \<Longrightarrow> c \<noteq> CHR ''.''"
    using str_int_no_dot [of k] by auto
  have "rev (p @ ''.'' @ t @ ''.'' @ str_int k) = rev (str_int k) @ (CHR ''.'' # rev t @ CHR ''.'' # rev p)"
    by simp
  then have "takeWhile (\<lambda>c. c \<noteq> CHR ''.'') (rev (p @ ''.'' @ t @ ''.'' @ str_int k))
      = rev (str_int k) @ takeWhile (\<lambda>c. c \<noteq> CHR ''.'') (CHR ''.'' # rev t @ CHR ''.'' # rev p)"
    using takeWhile_append2 [of "rev (str_int k)" "\<lambda>c. c \<noteq> CHR ''.''", OF nodot] by simp
  then show ?thesis by (simp add: last_component_def)
qed

lemma new_channel_counter:
  assumes "new_channel p t b = (name, b')"
  shows "channel_counter b' = channel_counter b + 1"
    and "last_component name = str_int (channel_counter b + 1)"
proof -
  from assms have b': "b' = b\<lparr>channel_counter := channel_counter b + 1\<rparr>"
    and name: "name = p @ ''.'' @ str_int t @ ''.'' @ str_int (channel_counter b + 1)"
    by (simp_all add: new_channel_def Let_def)
  from b' show "channel_counter b' = channel_counter b + 1" by simp
  from name show "last_component name = str_int (channel_counter b + 1)"
    by (simp only: last_component_name)
qed

lemma new_channels_bounds:
  "new_channels calls b = (names, b') \<Longrightarrow>
     channel_counter b' = channel_counter b + int (length calls)
   \<and> length names = length calls
   \<and> (\<forall>n \<in> set names. \<exists>k. k > channel_counter b \<and> last_component n = str_int k)"
proof (induction calls arbitrary: b names b')
  case Nil
  then show ?case by simp
next
  case (Cons call calls)
  obtain p t where call: "call = (p, t)" by (cases call)
  obtain name b1 where first: "new_channel p t b = (name, b1)" by (cases "new_channel p t b")
  obtain rest b2 where more: "new_channels calls b1 = (rest, b2)" by (cases "new_channels calls b1")
  from Cons.prems call first more have res: "names = name # rest" "b' = b2" by simp_all
  note step = new_channel_counter [OF first]
  note ih = Cons.IH [OF more]
  have "\<exists>k. k > channel_counter b \<and> last_component n = str_int k" if "n \<in> set names" for n
  proof (cases "n = name")
    case True
    with step show ?thesis by (intro exI [of _ "channel_counter b + 1"]) simp
  next
    case False
    with that res have "n \<in> set rest" by simp
    with ih obtain k where "k > channel_counter b1" "last_component n = str_int k" by blast
    with step show ?thesis by (intro exI [of _ k]) simp
  qed
  then show ?case
    using res step ih by simp
qed

lemma new_channels_distinct:
  "new_channels calls b = (names, b') \<Longrightarrow> distinct names"
proof (induction calls arbitrary: b names b')
  case Nil
  then show ?case by simp
next
  case (Cons call calls)
  obtain p t where call: "call = (p, t)" by (cases call)
  obtain name b1 where first: "new_channel p t b = (name, b1)" by (cases "new_channel p t b")
  obtain rest b2 where more: "new_channels calls b1 = (rest, b2)" by (cases "new_channels calls b1")
  from Cons.prems call first more have res: "names = name # rest" by simp
  note step = new_channel_counter [OF first]
  have "name \<notin> set rest"
  proof
    assume "name \<in> set rest"
    with new_channels_bounds [OF more] obtain k
      where k: "k > channel_counter b1" "last_component name = str_int k" by blast
    with step have "str_int k = str_int (channel_counter b + 1)" by simp
    then have "k = channel_counter b + 1" by (rule str_int_inj)
    with k step show False by simp
  qed
  moreover have "distinct rest" by (rule Cons.IH [OF more])
  ultimately show ?case using res by simp
qed

text \<open>
  C10. The names returned by any sequence of \<open>new_channel\<close> calls on one backend instance,
  whatever the prefixes and clock readings and whatever the state of the backend before
  the first call, are pairwise distinct, one name per call: the text after the last dot of
  a name is the decimal form of the counter, which grows by one with each call.
\<close>

theorem new_channel_unique:
  "distinct (fst (new_channels calls b)) \<and> length (fst (new_channels calls b)) = length calls"
  using new_channels_distinct [of calls b] new_channels_bounds [of calls b]
  by (cases "new_channels calls b") auto

theorem new_channel_unique_witness:
  "fst (new_channels [(''channel'', 5), (''channel'', 5), (''channel.5'', 1)] BaseBackend)
     = [''channel.5.1'', ''channel.5.2'', ''channel.5.1.3'']
   \<and> distinct (fst (new_channels [(''channel'', 5), (''channel'', 5), (''channel.5'', 1)] BaseBackend))"
proof -
  have "fst (new_channels [(''channel'', 5), (''channel'', 5), (''channel.5'', 1)] BaseBackend)
     = [''channel.5.1'', ''channel.5.2'', ''channel.5.1.3'']"
    by (simp add: new_channel_def str_int_def str_nat.simps digit_char_def BaseBackend_def Let_def)
  then show ?thesis
    using new_channel_unique [of "[(''channel'', 5), (''channel'', 5), (''channel.5'', 1)]" BaseBackend]
    by simp
qed

section \<open>Properties of the connection registry\<close>

lemma user_connections_add:
  "registry_get_user_connections u (registry_add_connection c uid md gs hb b) =
     (if uid = Some u \<and> u \<noteq> [] then insert c (registry_get_user_connections u b)
      else registry_get_user_connections u b)"
  by (simp add: registry_get_user_connections_def registry_add_connection_def
        split: option.splits)

lemma connection_data_add:
  "registry_connection_data (registry_add_connection c uid md gs hb b) c' =
     (if c' = c then Some \<lparr>entry_user_id = uid, entry_metadata = md, entry_groups = gs,
                           entry_heartbeat_timeout = hb\<rparr>
      else registry_connection_data b c')"
  by (simp add: registry_add_connection_def)

lemma user_connections_remove:
  "registry_get_user_connections u (registry_remove_connection c uid b) =
     (if uid = Some u \<and> u \<noteq> [] then registry_get_user_connections u b - {c}
      else registry_get_user_connections u b)"
  by (simp add: registry_get_user_connections_def registry_remove_connection_def
        split: option.splits)

lemma connection_data_remove:
  "registry_connection_data (registry_remove_connection c uid b) c' =
     (if c' = c then None else registry_connection_data b c')"
  by (simp add: registry_remove_connection_def)

lemma user_connections_update:
  "registry_get_user_connections u (registry_update_groups c gs b) =
     registry_get_user_connections u b"
  by (simp add: registry_get_user_connections_def registry_update_groups_def
        split: option.splits)

lemma connection_data_update:
  "registry_connection_data (registry_update_groups c gs b) c' =
     (if c' = c then map_option (\<lambda>e. e\<lparr>entry_groups := gs\<rparr>) (registry_connection_data b c)
      else registry_connection_data b c')"
  by (simp add: registry_update_groups_def split: option.splits)

lemmas registry_effects =
  user_connections_add connection_data_add user_connections_remove connection_data_remove
  user_connections_update connection_data_update

lemma registry_connections_dom_step:
  "registry_connections b = dom (registry_connection_data b) \<Longrightarrow>
   registry_connections (apply_registry_op b x) = dom (registry_connection_data (apply_registry_op b x))"
  by (cases x)
     (auto simp: registry_add_connection_def registry_remove_connection_def
        registry_update_groups_def split: option.splits)

lemma registered_users_indexed_step:
  assumes "registered_users_indexed b"
  shows "registered_users_indexed (apply_registry_op b x)"
proof (cases x)
  case (RegistryAdd c uid md gs hb)
  show ?thesis
    using assms unfolding RegistryAdd registered_users_indexed_def
    by (simp add: registry_effects) blast
next
  case (RegistryRemove c uid)
  show ?thesis
    using assms unfolding RegistryRemove registered_users_indexed_def
    by (simp add: registry_effects) blast
next
  case (RegistryUpdateGroups c gs)
  show ?thesis
    using assms unfolding RegistryUpdateGroups registered_users_indexed_def
    by (auto simp add: registry_effects)
qed

lemma index_entries_registered_step:
  assumes inv: "index_entries_registered b" and ok: "consistent_op b x"
  shows "index_entries_registered (apply_registry_op b x)"
proof -
  have reg: "\<exists>e. registry_connection_data b k = Some e \<and> entry_user_id e = Some u"
    and ne: "u \<noteq> []"
    if "k \<in> registry_get_user_connections u b" for u k
    using inv that unfolding index_entries_registered_def by blast+
  show ?thesis
  proof (cases x)
    case (RegistryAdd c uid md gs hb)
    have "u \<noteq> [] \<and> (\<exists>e. registry_connection_data (registry_add_connection c uid md gs hb b) k = Some e
              \<and> entry_user_id e = Some u)"
      if k: "k \<in> registry_get_user_connections u (registry_add_connection c uid md gs hb b)"
      for u k
    proof (cases "k = c")
      case True
      show ?thesis
      proof (cases "uid = Some u \<and> u \<noteq> []")
        case True
        with \<open>k = c\<close> show ?thesis by (simp add: registry_effects)
      next
        case False
        with k have "k \<in> registry_get_user_connections u b"
          by (simp add: registry_effects split: if_splits)
        from reg [OF this] ne [OF this] \<open>k = c\<close> ok RegistryAdd show ?thesis
          by (auto simp: registry_effects)
      qed
    next
      case False
      with k have "k \<in> registry_get_user_connections u b"
        by (simp add: registry_effects split: if_splits)
      from reg [OF this] ne [OF this] False show ?thesis by (simp add: registry_effects)
    qed
    then show ?thesis
      unfolding RegistryAdd index_entries_registered_def by simp
  next
    case (RegistryRemove c uid)
    have "u \<noteq> [] \<and> (\<exists>e. registry_connection_data (registry_remove_connection c uid b) k = Some e
              \<and> entry_user_id e = Some u)"
      if k: "k \<in> registry_get_user_connections u (registry_remove_connection c uid b)"
      for u k
    proof -
      from k have kb: "k \<in> registry_get_user_connections u b"
        by (simp add: registry_effects split: if_splits)
      have "k \<noteq> c"
      proof
        assume "k = c"
        with reg [OF kb] ok RegistryRemove have uid: "uid = Some u" by auto
        have "u \<noteq> []" by (rule ne [OF kb])
        with uid k \<open>k = c\<close> show False by (simp add: registry_effects)
      qed
      with reg [OF kb] ne [OF kb] show ?thesis by (simp add: registry_effects)
    qed
    then show ?thesis
      unfolding RegistryRemove index_entries_registered_def by simp
  next
    case (RegistryUpdateGroups c gs)
    have "u \<noteq> [] \<and> (\<exists>e. registry_connection_data (registry_update_groups c gs b) k = Some e
              \<and> entry_user_id e = Some u)"
      if k: "k \<in> registry_get_user_connections u (registry_update_groups c gs b)"
      for u k
    proof -
      from k have "k \<in> registry_get_user_connections u b" by (simp add: registry_effects)
      from reg [OF this] ne [OF this] show ?thesis by (auto simp: registry_effects)
    qed
    then show ?thesis
      unfolding RegistryUpdateGroups index_entries_registered_def by simp
  qed
qed


lemma registry_connections_dom_foldl:
  "registry_connections b = dom (registry_connection_data b) \<Longrightarrow>
   registry_connections (foldl apply_registry_op b ops)
     = dom (registry_connection_data (foldl apply_registry_op b ops))"
  by (induction ops arbitrary: b) (simp_all add: registry_connections_dom_step)

lemma registered_users_indexed_foldl:
  "registered_users_indexed b \<Longrightarrow> registered_users_indexed (foldl apply_registry_op b ops)"
  by (induction ops arbitrary: b) (simp_all add: registered_users_indexed_step)

lemma index_entries_registered_foldl:
  "index_entries_registered b \<Longrightarrow> consistent_ops b ops \<Longrightarrow>
   index_entries_registered (foldl apply_registry_op b ops)"
  by (induction ops arbitrary: b) (simp_all add: index_entries_registered_step)

lemma secondary_ids_iff:
  "c \<in> secondary_ids b \<longleftrightarrow> (\<exists>u. c \<in> registry_get_user_connections u b)"
proof
  assume "c \<in> secondary_ids b"
  then obtain s where "s \<in> ran (registry_user_connections b)" "c \<in> s"
    by (auto simp: secondary_ids_def)
  then obtain u where "registry_user_connections b u = Some s"
    by (auto simp: ran_def)
  with \<open>c \<in> s\<close> have "c \<in> registry_get_user_connections u b"
    by (simp add: registry_get_user_connections_def)
  then show "\<exists>u. c \<in> registry_get_user_connections u b" ..
next
  assume "\<exists>u. c \<in> registry_get_user_connections u b"
  then obtain u where "c \<in> registry_get_user_connections u b" ..
  then obtain s where "registry_user_connections b u = Some s" "c \<in> s"
    by (auto simp: registry_get_user_connections_def split: option.splits)
  then show "c \<in> secondary_ids b"
    by (auto simp: secondary_ids_def ran_def)
qed

lemma identified_in_secondary:
  assumes "registered_users_indexed b"
  shows "identified_ids b \<subseteq> secondary_ids b"
proof
  fix c assume "c \<in> identified_ids b"
  then obtain e u where "registry_connection_data b c = Some e" "entry_user_id e = Some u" "u \<noteq> []"
    by (auto simp: identified_ids_def)
  with assms have "c \<in> registry_get_user_connections u b"
    unfolding registered_users_indexed_def by blast
  then show "c \<in> secondary_ids b"
    unfolding secondary_ids_iff ..
qed

lemma secondary_in_primary:
  assumes "index_entries_registered b"
  shows "secondary_ids b \<subseteq> identified_ids b" and "identified_ids b \<subseteq> primary_ids b"
proof -
  show "secondary_ids b \<subseteq> identified_ids b"
  proof
    fix c assume "c \<in> secondary_ids b"
    then obtain u where "c \<in> registry_get_user_connections u b"
      by (auto simp: secondary_ids_iff)
    with assms have "u \<noteq> []" "\<exists>e. registry_connection_data b c = Some e \<and> entry_user_id e = Some u"
      by (auto simp: index_entries_registered_def)
    then show "c \<in> identified_ids b"
      by (auto simp: identified_ids_def)
  qed
  show "identified_ids b \<subseteq> primary_ids b"
    by (auto simp: identified_ids_def primary_ids_def)
qed

lemma remove_last_user_connection:
  assumes "u \<noteq> []" and "registry_get_user_connections u b = {c}"
  shows "u \<notin> dom (registry_user_connections (registry_remove_connection c (Some u) b))"
    and "registry_get_user_connections u (registry_remove_connection c (Some u) b) = {}"
proof -
  from assms(2) have "registry_user_connections b u = Some {c}"
    by (simp add: registry_get_user_connections_def split: option.splits)
  with assms(1) show "u \<notin> dom (registry_user_connections (registry_remove_connection c (Some u) b))"
    by (simp add: registry_remove_connection_def)
  from assms show "registry_get_user_connections u (registry_remove_connection c (Some u) b) = {}"
    by (simp add: user_connections_remove)
qed

text \<open>
  C4, as stated, fails in both directions. A connection registered without a user id is in
  the primary map and in no set of the secondary index; and removing a connection with a
  user id other than the one it was registered under leaves its id in the secondary index
  after it has left the primary map.
\<close>

theorem registry_index_counterexample:
  "primary_ids (run_registry_ops [RegistryAdd ''c1'' None PyNone {} 60] MemoryBackend) = {''c1''}
   \<and> secondary_ids (run_registry_ops [RegistryAdd ''c1'' None PyNone {} 60] MemoryBackend) = {}
   \<and> primary_ids (run_registry_ops
        [RegistryAdd ''c1'' (Some ''u1'') PyNone {} 60, RegistryRemove ''c1'' None] MemoryBackend) = {}
   \<and> secondary_ids (run_registry_ops
        [RegistryAdd ''c1'' (Some ''u1'') PyNone {} 60, RegistryRemove ''c1'' None] MemoryBackend) = {''c1''}"
  by (simp add: primary_ids_def secondary_ids_def run_registry_ops_def MemoryBackend_def
        registry_add_connection_def registry_remove_connection_def)

text \<open>
  C4, amended. After every sequence of registry calls on a fresh backend: the set of
  connection ids equals the key set of the primary map, and every connection of the
  primary map whose registered user id is a non-empty string is in the secondary index
  under that user id. When every call of the sequence is consistent (a removal of a
  registered connection passes the user id it is registered under, and an id that is
  registered is registered again only with the same user id), every id in the secondary
  index under a user id is in the primary map, registered under that user id, which is
  non-empty; the ids of the secondary index are then exactly the ids of the primary map
  registered with a non-empty user id. On every such backend, for a non-empty user id
  under which exactly one connection is listed, removing that connection with that user
  id deletes the key, after which the lookup for that user yields the empty set.
\<close>

theorem registry_index_consistent:
  fixes ops :: "registry_op list" and u c :: string
  defines "b \<equiv> run_registry_ops ops MemoryBackend"
  shows "registry_connections b = dom (registry_connection_data b)
       \<and> registered_users_indexed b
       \<and> identified_ids b \<subseteq> secondary_ids b
       \<and> (consistent_ops MemoryBackend ops \<longrightarrow>
            index_entries_registered b \<and> secondary_ids b = identified_ids b)
       \<and> (u \<noteq> [] \<and> registry_get_user_connections u b = {c} \<longrightarrow>
            u \<notin> dom (registry_user_connections (registry_remove_connection c (Some u) b))
          \<and> registry_get_user_connections u (registry_remove_connection c (Some u) b) = {})"
proof -
  have init: "registry_connections MemoryBackend = dom (registry_connection_data MemoryBackend)"
    "registered_users_indexed MemoryBackend" "index_entries_registered MemoryBackend"
    by (simp_all add: MemoryBackend_def registered_users_indexed_def index_entries_registered_def
          registry_get_user_connections_def)
  have p1: "registry_connections b = dom (registry_connection_data b)"
    unfolding b_def run_registry_ops_def by (rule registry_connections_dom_foldl [OF init(1)])
  have p2: "registered_users_indexed b"
    unfolding b_def run_registry_ops_def by (rule registered_users_indexed_foldl [OF init(2)])
  have p2': "identified_ids b \<subseteq> secondary_ids b"
    by (rule identified_in_secondary [OF p2])
  have p3': "consistent_ops MemoryBackend ops \<longrightarrow> index_entries_registered b"
    unfolding b_def run_registry_ops_def by (simp add: index_entries_registered_foldl [OF init(3)])
  have p3: "consistent_ops MemoryBackend ops \<longrightarrow>
      index_entries_registered b \<and> secondary_ids b = identified_ids b"
    using p3' p2' secondary_in_primary(1) [of b] by blast
  have p4: "u \<noteq> [] \<and> registry_get_user_connections u b = {c} \<longrightarrow>
            u \<notin> dom (registry_user_connections (registry_remove_connection c (Some u) b))
          \<and> registry_get_user_connections u (registry_remove_connection c (Some u) b) = {}"
    using remove_last_user_connection [of u b c] by blast
  from p1 p2 p2' p3 p4 show ?thesis by blast
qed

theorem registry_index_consistent_witness:
  "consistent_ops MemoryBackend
     [RegistryAdd ''c1'' (Some ''alice'') PyNone {} 60,
           RegistryAdd ''c2'' None PyNone {} 60,
           RegistryUpdateGroups ''c1'' {''room''},
           RegistryAdd ''c3'' (Some ''alice'') PyNone {''room''} 30,
           RegistryRemove ''c3'' (Some ''alice'')]
   \<and> registry_get_user_connections ''alice'' (run_registry_ops
     [RegistryAdd ''c1'' (Some ''alice'') PyNone {} 60,
           RegistryAdd ''c2'' None PyNone {} 60,
           RegistryUpdateGroups ''c1'' {''room''},
           RegistryAdd ''c3'' (Some ''alice'') PyNone {''room''} 30,
           RegistryRemove ''c3'' (Some ''alice'')] MemoryBackend) = {''c1''}
   \<and> index_entries_registered (run_registry_ops
     [RegistryAdd ''c1'' (Some ''alice'') PyNone {} 60,
           RegistryAdd ''c2'' None PyNone {} 60,
           RegistryUpdateGroups ''c1'' {''room''},
           RegistryAdd ''c3'' (Some ''alice'') PyNone {''room''} 30,
           RegistryRemove ''c3'' (Some ''alice'')] MemoryBackend)
   \<and> registered_users_indexed (run_registry_ops
     [RegistryAdd ''c1'' (Some ''alice'') PyNone {} 60,
           RegistryAdd ''c2'' None PyNone {} 60,
           RegistryUpdateGroups ''c1'' {''room''},
           RegistryAdd ''c3'' (Some ''alice'') PyNone {''room''} 30,
           RegistryRemove ''c3'' (Some ''alice'')] MemoryBackend)
   \<and> ''alice'' \<notin> dom (registry_user_connections (registry_remove_connection ''c1'' (Some ''alice'')
     (run_registry_ops
     [RegistryAdd ''c1'' (Some ''alice'') PyNone {} 60,
           RegistryAdd ''c2'' None PyNone {} 60,
           RegistryUpdateGroups ''c1'' {''room''},
           RegistryAdd ''c3'' (Some ''alice'') PyNone {''room''} 30,
           RegistryRemove ''c3'' (Some ''alice'')] MemoryBackend)))"
proof -
  have ok: "consistent_ops MemoryBackend
     [RegistryAdd ''c1'' (Some ''alice'') PyNone {} 60,
           RegistryAdd ''c2'' None PyNone {} 60,
           RegistryUpdateGroups ''c1'' {''room''},
           RegistryAdd ''c3'' (Some ''alice'') PyNone {''room''} 30,
           RegistryRemove ''c3'' (Some ''alice'')]"
    by (simp add: MemoryBackend_def registry_add_connection_def registry_remove_connection_def
          registry_update_groups_def)
  have only: "registry_get_user_connections ''alice'' (run_registry_ops
     [RegistryAdd ''c1'' (Some ''alice'') PyNone {} 60,
           RegistryAdd ''c2'' None PyNone {} 60,
           RegistryUpdateGroups ''c1'' {''room''},
           RegistryAdd ''c3'' (Some ''alice'') PyNone {''room''} 30,
           RegistryRemove ''c3'' (Some ''alice'')] MemoryBackend) = {''c1''}"
    by (simp add: run_registry_ops_def MemoryBackend_def registry_add_connection_def
          registry_remove_connection_def registry_update_groups_def
          registry_get_user_connections_def insert_Diff_if)
  have ne: "''alice'' \<noteq> []" by simp
  show ?thesis
    using ok only ne
      registry_index_consistent [where ops = "[RegistryAdd ''c1'' (Some ''alice'') PyNone {} 60,
           RegistryAdd ''c2'' None PyNone {} 60,
           RegistryUpdateGroups ''c1'' {''room''},
           RegistryAdd ''c3'' (Some ''alice'') PyNone {''room''} 30,
           RegistryRemove ''c3'' (Some ''alice'')]"
        and u = "''alice''" and c = "''c1''"]
    by blast
qed

section \<open>Properties of the token bucket\<close>

lemma pow2_1024_gt: "x \<le> 2 ^ 64 \<Longrightarrow> x < pow2 1024"
proof -
  have "(2::rat) ^ 64 < 2 ^ 1024" by (rule power_strict_increasing) simp_all
  moreover have "pow2 1024 = 2 ^ 1024" by (simp add: pow2_def)
  ultimately show "x \<le> 2 ^ 64 \<Longrightarrow> x < pow2 1024" by simp
qed

lemma round_float_small:
  assumes "\<bar>fl x\<bar> \<le> 2 ^ 64"
  shows "round_float x = Finite (fl x)"
proof -
  from assms have up: "fl x \<le> 2 ^ 64" and down: "- fl x \<le> 2 ^ 64" by simp_all
  have "fl x < pow2 1024" by (rule pow2_1024_gt [OF up])
  moreover have "- fl x < pow2 1024" by (rule pow2_1024_gt [OF down])
  ultimately show ?thesis by (simp add: round_float_def)
qed

lemma floor_numeral_div:
  "\<lfloor>numeral a / numeral b :: rat\<rfloor> = numeral a div numeral b"
  using floor_divide_of_int_eq [of "numeral a" "numeral b", where ?'a = rat] by simp

lemmas float_eval = fl_def float_exponent_def pow2_def round_half_even_def Let_def floor_numeral_div

lemma fl_1_49: "fl (1 / 49) = 5882252574524729 / 288230376151711744"
  by (simp add: float_eval)

lemma truediv_1_49: "int_truediv 1 49 = Inr (5882252574524729 / 288230376151711744)"
  by (simp add: int_truediv_def round_float_small fl_1_49)

lemma fl_49_q: "fl (288230376151711721 / 288230376151711744) = 9007199254740991 / 9007199254740992"
  by (simp add: float_eval)

lemma mul_49_truediv_1_49:
  "float_mul (Finite 49) (5882252574524729 / 288230376151711744)
     = Finite (9007199254740991 / 9007199254740992)"
  by (simp add: float_mul_def round_float_small fl_49_q)

lemma fl_small_int: "fl 6 = 6" "fl 49 = 49" "fl 10 = 10" "fl 4 = 4" "fl 2 = 2" "fl (1 / 2) = 1 / 2"
  by (simp_all add: float_eval)

lemma float_sub_same: "float_sub x x = Finite 0"
  by (simp add: float_sub_def round_float_def fl_def pow2_def)

lemma float_sub_6_0: "float_sub 6 0 = Finite 6"
  by (simp add: float_sub_def round_float_small fl_small_int)

lemma float_sub_49_0: "float_sub 49 0 = Finite 49"
  by (simp add: float_sub_def round_float_small fl_small_int)

lemma refill_1_49: "rate l = 1 \<Longrightarrow> window l = 49 \<Longrightarrow> refill l (Finite 49) = Inr 0"
  by (simp add: refill_def truediv_1_49 mul_49_truediv_1_49 py_int_def floor_numeral_div)

lemma fl_10_60: "fl (10 / 60) = 6004799503160661 / 36028797018963968"
  by (simp add: float_eval)

lemma truediv_10_60: "int_truediv 10 60 = Inr (6004799503160661 / 36028797018963968)"
  using fl_10_60 by (simp add: int_truediv_def round_float_small)

lemma fl_6_q: "fl (18014398509481983 / 18014398509481984) = 1"
  by (simp add: float_eval)

lemma mul_6_truediv_10_60: "float_mul (Finite 6) (6004799503160661 / 36028797018963968) = Finite 1"
  by (simp add: float_mul_def round_float_small fl_6_q)

lemma float_mul_0: "float_mul (Finite 0) x = Finite 0"
  by (simp add: float_mul_def round_float_def fl_def pow2_def)

lemma refill_10_60_at_0: "rate l = 10 \<Longrightarrow> window l = 60 \<Longrightarrow> refill l (Finite 0) = Inr 0"
  by (simp add: refill_def truediv_10_60 float_mul_0 py_int_def)

lemma refill_10_60_at_6: "rate l = 10 \<Longrightarrow> window l = 60 \<Longrightarrow> refill l (Finite 6) = Inr 1"
  by (simp add: refill_def truediv_10_60 mul_6_truediv_10_60 py_int_def)

text \<open>
  C2, as stated, fails where the float product falls short of the exact one. With rate 1,
  window 49 and burst 1 the first call at time 0 leaves no token; at time 49 the code
  computes \<open>49 * (1 / 49)\<close> in floats, which is \<open>1 - 2 ^ -53\<close> and is cut to 0, so the
  call is denied, while \<open>floor(49 * 1 / 49) = 1\<close> would allow it.
\<close>

theorem token_bucket_floor_counterexample:
  "allow 0 ''k'' (TokenBucketRateLimiter 1 49 1)
     = Inr (True, \<lparr>rate = 1, window = 49, burst = 1, buckets = [''k'' \<mapsto> (0, 0)]\<rparr>)
   \<and> allow 49 ''k'' \<lparr>rate = 1, window = 49, burst = 1, buckets = [''k'' \<mapsto> (0, 0)]\<rparr>
     = Inr (False, \<lparr>rate = 1, window = 49, burst = 1, buckets = [''k'' \<mapsto> (49, 0)]\<rparr>)
   \<and> spec_allow 49 ''k'' \<lparr>rate = 1, window = 49, burst = 1, buckets = [''k'' \<mapsto> (0, 0)]\<rparr>
     = (True, \<lparr>rate = 1, window = 49, burst = 1, buckets = [''k'' \<mapsto> (49, 0)]\<rparr>)"
  by (simp add: allow_def spec_allow_def spec_refill_def TokenBucketRateLimiter_def
        float_sub_49_0 refill_1_49)

lemma allow_first:
  "buckets l key = None \<Longrightarrow>
   allow now key l = Inr (True, l\<lparr>buckets := (buckets l)(key \<mapsto> (now, burst l - 1))\<rparr>)"
  by (simp add: allow_def)

lemma allow_next:
  "buckets l key = Some (last_check, tokens) \<Longrightarrow>
   allow now key l =
     (case int_truediv (rate l) (window l) of
        Inl e \<Rightarrow> Inl e
      | Inr q \<Rightarrow>
          (case py_int (float_mul (float_sub now last_check) q) of
             Inl e \<Rightarrow> Inl e
           | Inr r \<Rightarrow>
               (let refilled = min (burst l) (tokens + r)
                in if 0 < refilled
                   then Inr (True, l\<lparr>buckets := (buckets l)(key \<mapsto> (now, refilled - 1))\<rparr>)
                   else Inr (False, l\<lparr>buckets := (buckets l)(key \<mapsto> (now, 0))\<rparr>))))"
  by (simp add: allow_def refill_def Let_def split: sum.splits)

lemma int_truediv_zero:
  "map_sum exn_class id (int_truediv a 0) = Inl ZeroDivisionError"
  by (simp add: int_truediv_def py_raise_def)

lemma int_truediv_nonzero:
  "b \<noteq> 0 \<Longrightarrow>
   map_sum exn_class id (int_truediv a b) =
     (case round_float (of_int a / of_int b) of Finite q \<Rightarrow> Inr q | _ \<Rightarrow> Inl OverflowError)"
  by (simp add: int_truediv_def py_raise_def split: py_float.splits)

lemma py_int_cases:
  "py_int (Finite v) = Inr (if 0 \<le> v then \<lfloor>v\<rfloor> else \<lceil>v\<rceil>)"
  "map_sum exn_class id (py_int PosInf) = Inl OverflowError"
  "map_sum exn_class id (py_int NegInf) = Inl OverflowError"
  "map_sum exn_class id (py_int NaN) = Inl ValueError"
  by (simp_all add: py_int_def py_raise_def)

lemma py_int_nonneg: "0 \<le> z \<Longrightarrow> py_int (Finite z) = Inr \<lfloor>z\<rfloor>"
  by (simp add: py_int_def)

lemma refill_when_exact:
  assumes "last_check \<le> now" "0 \<le> rate l" "0 < window l" "refill_exact l now last_check"
  shows "refill l (float_sub now last_check) = Inr (spec_refill l now last_check)"
proof -
  have nonneg: "0 \<le> (now - last_check) * (of_int (rate l) / of_int (window l))"
    using assms(1-3) by simp
  from assms(4) have e1: "float_sub now last_check = Finite (now - last_check)"
    and e2: "round_float (of_int (rate l) / of_int (window l))
               = Finite (of_int (rate l) / of_int (window l))"
    and e3: "round_float ((now - last_check) * (of_int (rate l) / of_int (window l)))
               = Finite ((now - last_check) * (of_int (rate l) / of_int (window l)))"
    by (simp_all add: refill_exact_def float_exact_def float_sub_def)
  from assms(3) e2 have q: "int_truediv (rate l) (window l)
      = Inr (of_int (rate l) / of_int (window l))"
    by (simp add: int_truediv_def)
  have m: "float_mul (float_sub now last_check) (of_int (rate l) / of_int (window l))
      = Finite ((now - last_check) * (of_int (rate l) / of_int (window l)))"
    unfolding e1 float_mul_def by (simp only: py_float.case e3)
  have i: "py_int (Finite ((now - last_check) * (of_int (rate l) / of_int (window l))))
      = Inr \<lfloor>(now - last_check) * (of_int (rate l) / of_int (window l))\<rfloor>"
    by (rule py_int_nonneg [OF nonneg])
  have "refill l (float_sub now last_check)
      = Inr \<lfloor>(now - last_check) * (of_int (rate l) / of_int (window l))\<rfloor>"
    unfolding refill_def q by (simp only: sum.case m i)
  then show ?thesis by (simp add: spec_refill_def)
qed

lemma allow_when_exact:
  assumes "buckets l key = Some (last_check, tokens)"
    and "last_check \<le> now" "0 \<le> rate l" "0 < window l" "refill_exact l now last_check"
  shows "allow now key l = Inr (spec_allow now key l)"
  using assms(1) refill_when_exact [OF assms(2-5)]
  by (simp add: allow_def spec_allow_def Let_def)

lemma allow_10_60_10_run:
  "map_sum id fst (allow_calls [0, 0, 0, 0, 0, 0, 0, 0, 0, 0, 0, 6, 6] key (TokenBucketRateLimiter 10 60 10))
     = Inr [True, True, True, True, True, True, True, True, True, True, False, True, False]"
  by (simp add: allow_def TokenBucketRateLimiter_def float_sub_same float_sub_6_0
        refill_10_60_at_0 refill_10_60_at_6)

text \<open>
  C2, amended. On the first call for a key, \<open>allow\<close> stores \<open>(now, burst - 1)\<close> and
  allows. On a later call at time \<open>now\<close> with stored \<open>(last_check, tokens)\<close> it evaluates
  \<open>r = int((now - last_check) * (rate / window))\<close> in Python arithmetic: the difference and
  the product are float operations, rounded to nearest and overflowing to an infinity, the
  quotient of the two integers is rounded once, and \<open>int\<close> drops the fraction. When the
  evaluation raises (\<open>ZeroDivisionError\<close> for a zero window, \<open>OverflowError\<close> for a quotient
  too large for a float or an infinite product, \<open>ValueError\<close> for a product that is a NaN),
  \<open>allow\<close> raises that exception and stores nothing. Otherwise
  \<open>refilled = min(burst, tokens + r)\<close>; if \<open>refilled > 0\<close> it stores
  \<open>(now, refilled - 1)\<close> and allows, otherwise it stores \<open>(now, 0)\<close> and denies. When
  \<open>last_check \<le> now\<close>, \<open>0 \<le> rate\<close>, \<open>0 < window\<close> and the three float operations are
  exact, this is the specification's rule with \<open>floor((now - last_check) * rate / window)\<close>.
  With rate 10, window 60 and burst 10, ten calls at time 0 are allowed, the eleventh at
  time 0 is denied, and at time 6 one call is allowed and the next is denied.
\<close>

theorem token_bucket_allow:
  "(buckets l key = None \<longrightarrow>
      allow now key l = Inr (True, l\<lparr>buckets := (buckets l)(key \<mapsto> (now, burst l - 1))\<rparr>))
   \<and> (buckets l key = Some (last_check, tokens) \<longrightarrow>
      allow now key l =
        (case int_truediv (rate l) (window l) of
           Inl e \<Rightarrow> Inl e
         | Inr q \<Rightarrow>
             (case py_int (float_mul (float_sub now last_check) q) of
                Inl e \<Rightarrow> Inl e
              | Inr r \<Rightarrow>
                  (let refilled = min (burst l) (tokens + r)
                   in if 0 < refilled
                      then Inr (True, l\<lparr>buckets := (buckets l)(key \<mapsto> (now, refilled - 1))\<rparr>)
                      else Inr (False, l\<lparr>buckets := (buckets l)(key \<mapsto> (now, 0))\<rparr>)))))
   \<and> (window l = 0 \<longrightarrow>
        map_sum exn_class id (int_truediv (rate l) (window l)) = Inl ZeroDivisionError)
   \<and> (window l \<noteq> 0 \<longrightarrow>
        map_sum exn_class id (int_truediv (rate l) (window l)) =
          (case round_float (of_int (rate l) / of_int (window l)) of
             Finite q \<Rightarrow> Inr q
           | _ \<Rightarrow> Inl OverflowError))
   \<and> py_int (Finite v) = Inr (if 0 \<le> v then \<lfloor>v\<rfloor> else \<lceil>v\<rceil>)
   \<and> map_sum exn_class id (py_int PosInf) = Inl OverflowError
   \<and> map_sum exn_class id (py_int NegInf) = Inl OverflowError
   \<and> map_sum exn_class id (py_int NaN) = Inl ValueError
   \<and> (buckets l key = Some (last_check, tokens) \<and> last_check \<le> now \<and> 0 \<le> rate l
        \<and> 0 < window l \<and> refill_exact l now last_check \<longrightarrow>
      allow now key l = Inr (spec_allow now key l))
   \<and> map_sum id fst (allow_calls [0, 0, 0, 0, 0, 0, 0, 0, 0, 0, 0, 6, 6] key (TokenBucketRateLimiter 10 60 10))
       = Inr [True, True, True, True, True, True, True, True, True, True, False, True, False]"
proof -
  have first: "buckets l key = None \<longrightarrow>
      allow now key l = Inr (True, l\<lparr>buckets := (buckets l)(key \<mapsto> (now, burst l - 1))\<rparr>)"
    using allow_first [of l key now] by blast
  have later: "buckets l key = Some (last_check, tokens) \<longrightarrow>
      allow now key l =
        (case int_truediv (rate l) (window l) of
           Inl e \<Rightarrow> Inl e
         | Inr q \<Rightarrow>
             (case py_int (float_mul (float_sub now last_check) q) of
                Inl e \<Rightarrow> Inl e
              | Inr r \<Rightarrow>
                  (let refilled = min (burst l) (tokens + r)
                   in if 0 < refilled
                      then Inr (True, l\<lparr>buckets := (buckets l)(key \<mapsto> (now, refilled - 1))\<rparr>)
                      else Inr (False, l\<lparr>buckets := (buckets l)(key \<mapsto> (now, 0))\<rparr>))))"
    using allow_next [of l key last_check tokens now] by blast
  have zero: "window l = 0 \<longrightarrow>
        map_sum exn_class id (int_truediv (rate l) (window l)) = Inl ZeroDivisionError"
    by (simp add: int_truediv_zero)
  have nonzero: "window l \<noteq> 0 \<longrightarrow>
        map_sum exn_class id (int_truediv (rate l) (window l)) =
          (case round_float (of_int (rate l) / of_int (window l)) of
             Finite q \<Rightarrow> Inr q
           | _ \<Rightarrow> Inl OverflowError)"
    using int_truediv_nonzero [of "window l" "rate l"] by blast
  have exact: "buckets l key = Some (last_check, tokens) \<and> last_check \<le> now \<and> 0 \<le> rate l
        \<and> 0 < window l \<and> refill_exact l now last_check \<longrightarrow>
      allow now key l = Inr (spec_allow now key l)"
    using allow_when_exact [of l key last_check tokens now] by blast
  show ?thesis
    by (intro conjI)
       (rule first later zero nonzero py_int_cases(1) py_int_cases(2) py_int_cases(3)
          py_int_cases(4) exact allow_10_60_10_run)+
qed

theorem token_bucket_allow_witness:
  "buckets (TokenBucketRateLimiter 10 60 10) ''conn1'' = None
   \<and> allow 0 ''conn1'' (TokenBucketRateLimiter 10 60 10)
       = Inr (True, \<lparr>rate = 10, window = 60, burst = 10, buckets = [''conn1'' \<mapsto> (0, 9)]\<rparr>)
   \<and> allow 6 ''conn1'' \<lparr>rate = 10, window = 60, burst = 10, buckets = [''conn1'' \<mapsto> (0, 3)]\<rparr>
       = Inr (True, \<lparr>rate = 10, window = 60, burst = 10, buckets = [''conn1'' \<mapsto> (6, 3)]\<rparr>)
   \<and> map_sum exn_class id
        (allow 6 ''conn1'' \<lparr>rate = 10, window = 0, burst = 10, buckets = [''conn1'' \<mapsto> (0, 3)]\<rparr>)
       = Inl ZeroDivisionError
   \<and> refill_exact \<lparr>rate = 1, window = 2, burst = 5, buckets = [''conn1'' \<mapsto> (0, 0)]\<rparr> 4 0
   \<and> allow 4 ''conn1'' \<lparr>rate = 1, window = 2, burst = 5, buckets = [''conn1'' \<mapsto> (0, 0)]\<rparr>
       = Inr (spec_allow 4 ''conn1'' \<lparr>rate = 1, window = 2, burst = 5, buckets = [''conn1'' \<mapsto> (0, 0)]\<rparr>)
   \<and> spec_allow 4 ''conn1'' \<lparr>rate = 1, window = 2, burst = 5, buckets = [''conn1'' \<mapsto> (0, 0)]\<rparr>
       = (True, \<lparr>rate = 1, window = 2, burst = 5, buckets = [''conn1'' \<mapsto> (4, 1)]\<rparr>)"
proof -
  let ?l0 = "TokenBucketRateLimiter 10 60 10"
  let ?l1 = "\<lparr>rate = 10, window = 60, burst = 10, buckets = [''conn1'' \<mapsto> (0::rat, 3::int)]\<rparr>"
  let ?lz = "\<lparr>rate = 10, window = 0, burst = 10, buckets = [''conn1'' \<mapsto> (0::rat, 3::int)]\<rparr>"
  let ?l2 = "\<lparr>rate = 1, window = 2, burst = 5, buckets = [''conn1'' \<mapsto> (0::rat, 0::int)]\<rparr>"
  have fresh: "buckets ?l0 ''conn1'' = None"
    by (simp add: TokenBucketRateLimiter_def)
  have first: "allow 0 ''conn1'' ?l0
       = Inr (True, \<lparr>rate = 10, window = 60, burst = 10, buckets = [''conn1'' \<mapsto> (0, 9)]\<rparr>)"
    using fresh token_bucket_allow [where l = ?l0 and key = "''conn1''" and now = 0]
    by (simp add: TokenBucketRateLimiter_def)
  have stored: "buckets ?l1 ''conn1'' = Some (0, 3)" by simp
  have later: "allow 6 ''conn1'' ?l1
       = Inr (True, \<lparr>rate = 10, window = 60, burst = 10, buckets = [''conn1'' \<mapsto> (6, 3)]\<rparr>)"
    using stored token_bucket_allow [where l = ?l1 and key = "''conn1''" and now = 6
        and last_check = 0 and tokens = 3]
    by (simp add: float_sub_6_0 truediv_10_60 mul_6_truediv_10_60 py_int_def)
  have zstored: "buckets ?lz ''conn1'' = Some (0, 3)" by simp
  have zero: "map_sum exn_class id (allow 6 ''conn1'' ?lz) = Inl ZeroDivisionError"
    using zstored token_bucket_allow [where l = ?lz and key = "''conn1''" and now = 6
        and last_check = 0 and tokens = 3]
    by (simp add: int_truediv_def py_raise_def)
  have exact: "refill_exact ?l2 4 0"
    by (simp add: refill_exact_def float_exact_def round_float_small fl_small_int)
  have pre: "buckets ?l2 ''conn1'' = Some (0, 0) \<and> (0::rat) \<le> 4 \<and> 0 \<le> rate ?l2 \<and> 0 < window ?l2"
    by simp
  have agree: "allow 4 ''conn1'' ?l2 = Inr (spec_allow 4 ''conn1'' ?l2)"
    using exact pre token_bucket_allow [where l = ?l2 and key = "''conn1''" and now = 4
        and last_check = 0 and tokens = 0]
    by blast
  have spec: "spec_allow 4 ''conn1'' ?l2
       = (True, \<lparr>rate = 1, window = 2, burst = 5, buckets = [''conn1'' \<mapsto> (4, 1)]\<rparr>)"
    by (simp add: spec_allow_def spec_refill_def)
  show ?thesis
    by (intro conjI) (rule fresh first later zero exact agree spec)+
qed

section \<open>Properties of receive\<close>

text \<open>
  C5. When the channel has a queue, the queue is empty, no message arrives before the
  deadline and a timeout is given, \<open>receive\<close> raises \<open>TimeoutError\<close>, which is no returned
  value, so it differs from every received message. For a channel without a queue
  \<open>receive\<close> returns \<open>None\<close>. The two outcomes differ: no value is returned in both cases.
\<close>

theorem receive_timeout_distinct:
  "(channels b ch = Some [] \<longrightarrow>
      fst (receive ch (Some t) None b) = Raises (py_raise TimeoutError [])
    \<and> (\<forall>m. fst (receive ch (Some t) None b) \<noteq> Returns m))
   \<and> (channels b' ch' = None \<longrightarrow> fst (receive ch' timeout arrival b') = Returns PyNone)
   \<and> (channels b ch = Some [] \<and> channels b' ch' = None \<longrightarrow>
        fst (receive ch (Some t) None b) \<noteq> fst (receive ch' timeout arrival b'))"
  by (simp add: receive_def get_message_def)

theorem receive_timeout_distinct_witness:
  "channels (MemoryBackend\<lparr>channels := [''room'' \<mapsto> []]\<rparr>) ''room'' = Some []
   \<and> channels (MemoryBackend\<lparr>channels := [''room'' \<mapsto> []]\<rparr>) ''lobby'' = None
   \<and> fst (receive ''room'' (Some 5) None (MemoryBackend\<lparr>channels := [''room'' \<mapsto> []]\<rparr>))
       = Raises (py_raise TimeoutError [])
   \<and> fst (receive ''lobby'' (Some 5) None (MemoryBackend\<lparr>channels := [''room'' \<mapsto> []]\<rparr>))
       = Returns PyNone
   \<and> fst (receive ''room'' (Some 5) None (MemoryBackend\<lparr>channels := [''room'' \<mapsto> []]\<rparr>))
       \<noteq> fst (receive ''lobby'' (Some 5) None (MemoryBackend\<lparr>channels := [''room'' \<mapsto> []]\<rparr>))"
proof -
  let ?b = "MemoryBackend\<lparr>channels := [''room'' \<mapsto> []]\<rparr>"
  have q: "channels ?b ''room'' = Some []" by simp
  have a: "channels ?b ''lobby'' = None" by simp
  show ?thesis
    using q a
      receive_timeout_distinct [where b = ?b and ch = "''room''" and t = 5 and b' = ?b
        and ch' = "''lobby''" and timeout = "Some 5" and arrival = None]
    by blast
qed


section \<open>Properties of the middleware stages\<close>

text \<open>
  C6, as stated, fails for a connection whose \<open>user_id\<close> is set to the empty string: the
  stage tests the truth value of \<open>user_id\<close>, so a message of type \<open>chat\<close> from that
  connection is refused although the user id is not unset.
\<close>

theorem authentication_unset_counterexample:
  "user_id \<lparr>channel_name = ''c1'', user_id = Some [], bytes_received = 0, last_heartbeat = 0,
             last_activity = 0, websocket = []\<rparr> \<noteq> None
   \<and> map_sum exn_class id
        (authentication_process
           \<lparr>type = PyStr ''chat'', data = PyNone, sender_id = Some ''c1'', group = None,
            metadata = PyNone, priority = NORMAL, ttl_seconds = PyNone, created_at = 0\<rparr>
           \<lparr>channel_name = ''c1'', user_id = Some [], bytes_received = 0, last_heartbeat = 0,
            last_activity = 0, websocket = []\<rparr>)
       = Inl AuthenticationError"
  by (simp add: authentication_process_def truthy_str_def)

text \<open>
  C6, amended. The Authentication stage returns every message whose type is \<open>ping\<close>,
  \<open>pong\<close> or \<open>connect\<close> unchanged, whatever the connection. For a message of any other
  (hashable) type it raises \<open>AuthenticationError\<close> iff the connection's \<open>user_id\<close> is
  unset or the empty string, and it returns the message unchanged when the \<open>user_id\<close> is
  a non-empty string.
\<close>

theorem authentication_policy:
  "(type m \<in> {PyStr ''ping'', PyStr ''pong'', PyStr ''connect''} \<longrightarrow>
      authentication_process m c = Inr (Some m))
   \<and> (\<not> unhashable (type m) \<and> type m \<notin> {PyStr ''ping'', PyStr ''pong'', PyStr ''connect''} \<longrightarrow>
        ((\<exists>e. authentication_process m c = Inl e \<and> exn_class e = AuthenticationError)
           \<longleftrightarrow> user_id c = None \<or> user_id c = Some [])
      \<and> (user_id c \<noteq> None \<and> user_id c \<noteq> Some [] \<longrightarrow> authentication_process m c = Inr (Some m)))"
  by (auto simp: authentication_process_def truthy_str_def split: option.splits)

theorem authentication_policy_witness:
  "authentication_process (example_message (PyStr ''ping'') PyNone PyNone) (example_connection ''c1'' None)
     = Inr (Some (example_message (PyStr ''ping'') PyNone PyNone))
   \<and> map_sum exn_class id
        (authentication_process (example_message (PyStr ''chat'') PyNone PyNone)
           (example_connection ''c1'' None)) = Inl AuthenticationError
   \<and> authentication_process (example_message (PyStr ''chat'') PyNone PyNone)
        (example_connection ''c1'' (Some ''alice''))
     = Inr (Some (example_message (PyStr ''chat'') PyNone PyNone))"
proof -
  let ?ping = "example_message (PyStr ''ping'') PyNone PyNone"
  let ?chat = "example_message (PyStr ''chat'') PyNone PyNone"
  let ?anon = "example_connection ''c1'' None"
  let ?alice = "example_connection ''c1'' (Some ''alice'')"
  have t1: "type ?ping \<in> {PyStr ''ping'', PyStr ''pong'', PyStr ''connect''}"
    by (simp add: example_message_def)
  have t2: "\<not> unhashable (type ?chat) \<and> type ?chat \<notin> {PyStr ''ping'', PyStr ''pong'', PyStr ''connect''}"
    by (simp add: example_message_def)
  have u1: "user_id ?anon = None" by (simp add: example_connection_def)
  have u2: "user_id ?alice \<noteq> None \<and> user_id ?alice \<noteq> Some []" by (simp add: example_connection_def)
  have p1: "authentication_process ?ping ?anon = Inr (Some ?ping)"
    using t1 authentication_policy [where m = ?ping and c = ?anon] by blast
  obtain e where "authentication_process ?chat ?anon = Inl e" "exn_class e = AuthenticationError"
    using t2 u1 authentication_policy [where m = ?chat and c = ?anon] by blast
  then have p2: "map_sum exn_class id (authentication_process ?chat ?anon) = Inl AuthenticationError"
    by simp
  have p3: "authentication_process ?chat ?alice = Inr (Some ?chat)"
    using t2 u2 authentication_policy [where m = ?chat and c = ?alice] by blast
  from p1 p2 p3 show ?thesis by blast
qed

text \<open>
  C7, as stated, fails for a message that \<open>json.dumps\<close> cannot serialise: the stage turns
  the exception of \<open>json.dumps\<close> into a \<open>ValidationError\<close>, although no serialised size
  exceeds the limit.
\<close>

theorem validation_size_counterexample:
  "map_sum exn_class id
     (validation_process 1048576 failing_dumps 0
        \<lparr>type = PyStr ''chat'', data = PyObject ''set'', sender_id = Some ''c1'', group = None,
         metadata = PyNone, priority = NORMAL, ttl_seconds = PyNone, created_at = 0\<rparr>
        \<lparr>channel_name = ''c1'', user_id = Some ''alice'', bytes_received = 0, last_heartbeat = 0,
         last_activity = 0, websocket = []\<rparr>)
     = Inl ValidationError
   \<and> failing_dumps (to_dict
        \<lparr>type = PyStr ''chat'', data = PyObject ''set'', sender_id = Some ''c1'', group = None,
         metadata = PyNone, priority = NORMAL, ttl_seconds = PyNone, created_at = 0\<rparr>)
     = Inl ''Object of type set is not JSON serializable''"
  by (simp add: validation_process_def failing_dumps_def)

lemma is_expired_not_validation:
  "is_expired now m = Inl e \<Longrightarrow> exn_class e \<noteq> ValidationError"
  by (auto simp: is_expired_def py_raise_def split: py_any.splits)

text \<open>
  C7, amended. The Validation stage raises \<open>ValidationError\<close> iff serialising the message
  fails or the serialised size exceeds the configured maximum. For a message within the
  limit it returns nothing when \<open>is_expired\<close> is true, returns the message unchanged when
  \<open>is_expired\<close> is false, and lets the exception through when \<open>is_expired\<close> raises.
\<close>

theorem validation_policy:
  "((\<exists>e. validation_process max_size dumps now m c = Inl e \<and> exn_class e = ValidationError)
      \<longleftrightarrow> (\<exists>exc. dumps (to_dict m) = Inl exc)
        \<or> (\<exists>out. dumps (to_dict m) = Inr out \<and> max_size < int (length out)))
   \<and> (dumps (to_dict m) = Inr out \<and> int (length out) \<le> max_size \<and> is_expired now m = Inr True
        \<longrightarrow> validation_process max_size dumps now m c = Inr None)
   \<and> (dumps (to_dict m) = Inr out \<and> int (length out) \<le> max_size \<and> is_expired now m = Inr False
        \<longrightarrow> validation_process max_size dumps now m c = Inr (Some m))
   \<and> (dumps (to_dict m) = Inr out \<and> int (length out) \<le> max_size \<and> is_expired now m = Inl e
        \<longrightarrow> validation_process max_size dumps now m c = Inl e)"
proof -
  have raise: "(\<exists>e. validation_process max_size dumps now m c = Inl e \<and> exn_class e = ValidationError)
      \<longleftrightarrow> (\<exists>exc. dumps (to_dict m) = Inl exc)
        \<or> (\<exists>out. dumps (to_dict m) = Inr out \<and> max_size < int (length out))"
  proof (cases "dumps (to_dict m)")
    case (Inl exc)
    then show ?thesis by (simp add: validation_process_def)
  next
    case (Inr s)
    show ?thesis
    proof (cases "max_size < int (length s)")
      case True
      with Inr show ?thesis by (simp add: validation_process_def Let_def)
    next
      case False
      with Inr show ?thesis
        using is_expired_not_validation [of now m]
        by (auto simp: validation_process_def Let_def split: sum.splits bool.splits)
    qed
  qed
  have rest: "dumps (to_dict m) = Inr out \<and> int (length out) \<le> max_size \<longrightarrow>
      validation_process max_size dumps now m c =
        (case is_expired now m of Inl e \<Rightarrow> Inl e | Inr True \<Rightarrow> Inr None | Inr False \<Rightarrow> Inr (Some m))"
    by (simp add: validation_process_def Let_def)
  from raise rest show ?thesis by simp
qed

theorem validation_policy_witness:
  "validation_process 10 (fixed_dumps ''{}'') 10 (example_message (PyStr ''chat'') PyNone PyNone)
       (example_connection ''c1'' None)
     = Inr (Some (example_message (PyStr ''chat'') PyNone PyNone))
   \<and> validation_process 10 (fixed_dumps ''{}'') 10 (example_message (PyStr ''chat'') PyNone (PyInt 5))
       (example_connection ''c1'' None) = Inr None
   \<and> map_sum exn_class id
        (validation_process 1 (fixed_dumps ''{}'') 10 (example_message (PyStr ''chat'') PyNone PyNone)
           (example_connection ''c1'' None)) = Inl ValidationError
   \<and> map_sum exn_class id
        (validation_process 10 failing_dumps 10 (example_message (PyStr ''chat'') (PyObject ''set'') PyNone)
           (example_connection ''c1'' None)) = Inl ValidationError
   \<and> validation_process 10 (fixed_dumps ''{}'') 10 (example_message (PyStr ''chat'') PyNone (PyStr ''soon''))
       (example_connection ''c1'' None) = Inl (py_raise TypeError ''unsupported operand for >'')"
proof -
  let ?live = "example_message (PyStr ''chat'') PyNone PyNone"
  let ?old = "example_message (PyStr ''chat'') PyNone (PyInt 5)"
  let ?set = "example_message (PyStr ''chat'') (PyObject ''set'') PyNone"
  let ?bad = "example_message (PyStr ''chat'') PyNone (PyStr ''soon'')"
  let ?c = "example_connection ''c1'' None"
  have fits: "fixed_dumps ''{}'' (to_dict m) = Inr ''{}'' \<and> int (length ''{}'') \<le> 10" for m
    by (simp add: fixed_dumps_def)
  have big: "fixed_dumps ''{}'' (to_dict ?live) = Inr ''{}'' \<and> 1 < int (length ''{}'')"
    by (simp add: fixed_dumps_def)
  have fails: "failing_dumps (to_dict ?set) = Inl ''Object of type set is not JSON serializable''"
    by (simp add: failing_dumps_def)
  have sub: "float_sub 10 0 = Finite 10"
    by (simp add: float_sub_def round_float_small fl_small_int)
  have e1: "is_expired 10 ?live = Inr False" by (simp add: is_expired_def example_message_def)
  have e2: "is_expired 10 ?old = Inr True"
    by (simp add: is_expired_def example_message_def sub float_gt_def)
  have e3: "is_expired 10 ?bad = Inl (py_raise TypeError ''unsupported operand for >'')"
    by (simp add: is_expired_def example_message_def)
  have p1: "validation_process 10 (fixed_dumps ''{}'') 10 ?live ?c = Inr (Some ?live)"
    using fits [of ?live] e1
      validation_policy [where max_size = 10 and dumps = "fixed_dumps ''{}''" and now = 10
        and m = ?live and c = ?c and out = "''{}''"]
    by blast
  have p2: "validation_process 10 (fixed_dumps ''{}'') 10 ?old ?c = Inr None"
    using fits [of ?old] e2
      validation_policy [where max_size = 10 and dumps = "fixed_dumps ''{}''" and now = 10
        and m = ?old and c = ?c and out = "''{}''"]
    by blast
  obtain x where "validation_process 1 (fixed_dumps ''{}'') 10 ?live ?c = Inl x"
      "exn_class x = ValidationError"
    using big
      validation_policy [where max_size = 1 and dumps = "fixed_dumps ''{}''" and now = 10
        and m = ?live and c = ?c]
    by blast
  then have p3: "map_sum exn_class id (validation_process 1 (fixed_dumps ''{}'') 10 ?live ?c)
      = Inl ValidationError" by simp
  obtain y where "validation_process 10 failing_dumps 10 ?set ?c = Inl y"
      "exn_class y = ValidationError"
    using fails
      validation_policy [where max_size = 10 and dumps = failing_dumps and now = 10
        and m = ?set and c = ?c]
    by blast
  then have p4: "map_sum exn_class id (validation_process 10 failing_dumps 10 ?set ?c)
      = Inl ValidationError" by simp
  have p5: "validation_process 10 (fixed_dumps ''{}'') 10 ?bad ?c
      = Inl (py_raise TypeError ''unsupported operand for >'')"
    using fits [of ?bad] e3
      validation_policy [where max_size = 10 and dumps = "fixed_dumps ''{}''" and now = 10
        and m = ?bad and c = ?c and out = "''{}''"
        and e = "py_raise TypeError ''unsupported operand for >''"]
    by blast
  from p1 p2 p3 p4 p5 show ?thesis by blast
qed

section \<open>Properties of handle_message\<close>

lemma dict_get_agree:
  "(\<forall>k. k \<noteq> ''sender_id'' \<longrightarrow> map_of d1 k = map_of d2 k) \<Longrightarrow> k \<noteq> ''sender_id'' \<Longrightarrow>
   dict_get d1 k v = dict_get d2 k v"
  by (simp add: dict_get_def)

lemma construct_message_agree:
  assumes "\<forall>k. k \<noteq> ''sender_id'' \<longrightarrow> map_of d1 k = map_of d2 k"
  shows "construct_message c d1 now = construct_message c d2 now"
proof -
  have "dict_get d1 ''priority'' v = dict_get d2 ''priority'' v"
    "dict_get d1 ''type'' v = dict_get d2 ''type'' v"
    "dict_get d1 ''data'' v = dict_get d2 ''data'' v"
    "dict_get d1 ''metadata'' v = dict_get d2 ''metadata'' v"
    "dict_get d1 ''ttl_seconds'' v = dict_get d2 ''ttl_seconds'' v" for v
    by (rule dict_get_agree [OF assms], simp)+
  then show ?thesis unfolding construct_message_def by (simp only:)
qed

lemma construct_message_sender:
  "construct_message c d now = Inr m \<Longrightarrow> sender_id m = Some (channel_name c)"
  by (auto simp: construct_message_def split: sum.splits)

lemma try_body_message:
  assumes "loads raw = Inr (PyDict d)"
    and "dict_get d ''type'' (PyStr ''message'') \<noteq> PyStr ''pong''"
    and "construct_message (connection self) d now = Inr m"
  shows "try_body loads recv now raw self = pipeline_and_receive recv m (count_received now raw self)"
  using assms by (simp add: try_body_def Let_def)

text \<open>
  C8. The \<open>Message\<close> built from a parsed frame has the connection's own \<open>channel_name\<close> as
  \<open>sender_id\<close>; two payloads that agree on every key other than \<open>sender_id\<close> give the same
  \<open>Message\<close>; and for a frame that is not a pong, both versions of \<open>handle_message\<close> hand
  exactly that \<open>Message\<close> to the pipeline.
\<close>

theorem sender_id_forced:
  "(construct_message c d now = Inr m \<longrightarrow> sender_id m = Some (channel_name c))
   \<and> ((\<forall>k. k \<noteq> ''sender_id'' \<longrightarrow> map_of d1 k = map_of d2 k) \<longrightarrow>
        construct_message c d1 now = construct_message c d2 now)
   \<and> (loads raw = Inr (PyDict d) \<and> dict_get d ''type'' (PyStr ''message'') \<noteq> PyStr ''pong''
        \<and> construct_message (connection self) d now = Inr m \<longrightarrow>
        sender_id m = Some (channel_name (connection self))
      \<and> handle_message isa loads recv now raw self
          = except_handlers isa (pipeline_and_receive recv m (count_received now raw self)))
   \<and> (loads raw = Inr (PyDict d) \<and> dict_get d ''type'' (PyStr ''message'') \<noteq> PyStr ''pong''
        \<and> construct_message (consumer_connection cself) d now = Inr m \<longrightarrow>
        sender_id m = Some (channel_name (consumer_connection cself))
      \<and> fastapi_channel_handle_message isa loads recv now raw cself
          = fastapi_channel_except_handlers isa cself
              (pipeline_and_receive recv m (count_received now raw (as_base_consumer cself))))"
proof -
  have a: "construct_message c d now = Inr m \<longrightarrow> sender_id m = Some (channel_name c)"
    by (simp add: construct_message_sender)
  have b: "(\<forall>k. k \<noteq> ''sender_id'' \<longrightarrow> map_of d1 k = map_of d2 k) \<longrightarrow>
        construct_message c d1 now = construct_message c d2 now"
    by (simp add: construct_message_agree)
  have c: "loads raw = Inr (PyDict d) \<and> dict_get d ''type'' (PyStr ''message'') \<noteq> PyStr ''pong''
        \<and> construct_message (connection self) d now = Inr m \<longrightarrow>
        sender_id m = Some (channel_name (connection self))
      \<and> handle_message isa loads recv now raw self
          = except_handlers isa (pipeline_and_receive recv m (count_received now raw self))"
    using construct_message_sender [of "connection self" d now m]
    by (simp add: handle_message_def try_body_message)
  have d: "loads raw = Inr (PyDict d) \<and> dict_get d ''type'' (PyStr ''message'') \<noteq> PyStr ''pong''
        \<and> construct_message (consumer_connection cself) d now = Inr m \<longrightarrow>
        sender_id m = Some (channel_name (consumer_connection cself))
      \<and> fastapi_channel_handle_message isa loads recv now raw cself
          = fastapi_channel_except_handlers isa cself
              (pipeline_and_receive recv m (count_received now raw (as_base_consumer cself)))"
  proof (intro impI, elim conjE)
    assume h: "loads raw = Inr (PyDict d)" "dict_get d ''type'' (PyStr ''message'') \<noteq> PyStr ''pong''"
      "construct_message (consumer_connection cself) d now = Inr m"
    have conn: "connection (as_base_consumer cself) = consumer_connection cself"
      by (simp add: as_base_consumer_def)
    from h(3) conn have cm: "construct_message (connection (as_base_consumer cself)) d now = Inr m"
      by simp
    from try_body_message [where loads = loads and raw = raw and d = d
        and self = "as_base_consumer cself" and now = now and m = m and recv = recv, OF h(1) h(2) cm]
      construct_message_sender [OF h(3)]
    show "sender_id m = Some (channel_name (consumer_connection cself))
      \<and> fastapi_channel_handle_message isa loads recv now raw cself
          = fastapi_channel_except_handlers isa cself
              (pipeline_and_receive recv m (count_received now raw (as_base_consumer cself)))"
      by (simp add: fastapi_channel_handle_message_def)
  qed
  from a b c d show ?thesis by blast
qed


theorem sender_id_forced_witness:
  "construct_message (example_connection ''c1'' None)
       [(''type'', PyStr ''chat''), (''sender_id'', PyStr ''admin'')] 0
     = Inr (example_message (PyStr ''chat'') PyNone PyNone)
   \<and> construct_message (example_connection ''c1'' None) [(''type'', PyStr ''chat'')] 0
     = Inr (example_message (PyStr ''chat'') PyNone PyNone)
   \<and> sender_id (example_message (PyStr ''chat'') PyNone PyNone)
     = Some (channel_name (example_connection ''c1'' None))
   \<and> handle_message flat_isa example_loads accepting_hook 0
        ''{\"type\": \"chat\", \"sender_id\": \"admin\"}''
        \<lparr>connection = example_connection ''c1'' None, middleware_stacks = []\<rparr>
     = except_handlers flat_isa
         (pipeline_and_receive accepting_hook (example_message (PyStr ''chat'') PyNone PyNone)
            (count_received 0 ''{\"type\": \"chat\", \"sender_id\": \"admin\"}''
               \<lparr>connection = example_connection ''c1'' None, middleware_stacks = []\<rparr>))
   \<and> fastapi_channel_handle_message flat_isa example_loads accepting_hook 0
        ''{\"type\": \"chat\", \"sender_id\": \"admin\"}''
        \<lparr>consumer_connection = example_connection ''c1'' None, middleware_stack = None\<rparr>
     = fastapi_channel_except_handlers flat_isa
         \<lparr>consumer_connection = example_connection ''c1'' None, middleware_stack = None\<rparr>
         (pipeline_and_receive accepting_hook (example_message (PyStr ''chat'') PyNone PyNone)
            (count_received 0 ''{\"type\": \"chat\", \"sender_id\": \"admin\"}''
               (as_base_consumer
                  \<lparr>consumer_connection = example_connection ''c1'' None, middleware_stack = None\<rparr>)))"
proof -
  let ?c = "example_connection ''c1'' None"
  let ?d1 = "[(''type'', PyStr ''chat''), (''sender_id'', PyStr ''admin'')]"
  let ?d2 = "[(''type'', PyStr ''chat'')]"
  let ?m = "example_message (PyStr ''chat'') PyNone PyNone"
  let ?raw = "''{\"type\": \"chat\", \"sender_id\": \"admin\"}''"
  let ?self = "\<lparr>connection = ?c, middleware_stacks = []\<rparr>"
  let ?cself = "\<lparr>consumer_connection = ?c, middleware_stack = None\<rparr>"
  have agree: "\<forall>k. k \<noteq> ''sender_id'' \<longrightarrow> map_of ?d1 k = map_of ?d2 k" by simp
  have built: "construct_message ?c ?d1 0 = Inr ?m"
    by (simp add: construct_message_def parse_priority_def dict_get_def example_message_def
          example_connection_def)
  have same: "construct_message ?c ?d1 0 = construct_message ?c ?d2 0"
    by (rule sender_id_forced [where ?d1.0 = ?d1 and ?d2.0 = ?d2 and c = ?c and now = 0,
          THEN conjunct2, THEN conjunct1, rule_format, OF agree [rule_format]])
  have parsed: "example_loads ?raw = Inr (PyDict ?d1)"
    by (simp add: example_loads_def)
  have nopong: "dict_get ?d1 ''type'' (PyStr ''message'') \<noteq> PyStr ''pong''"
    by (simp add: dict_get_def)
  have own: "construct_message (connection ?self) ?d1 0 = Inr ?m"
    using built by simp
  have cown: "construct_message (consumer_connection ?cself) ?d1 0 = Inr ?m"
    using built by simp
  note inst = sender_id_forced [where c = ?c and d = ?d1 and now = 0 and m = ?m
      and loads = example_loads and raw = ?raw and self = ?self and cself = ?cself
      and isa = flat_isa and recv = accepting_hook]
  have built2: "construct_message ?c ?d2 0 = Inr ?m"
    using same built by simp
  have sent: "sender_id ?m = Some (channel_name ?c)"
    by (rule inst [THEN conjunct1, rule_format, OF built])
  have core: "handle_message flat_isa example_loads accepting_hook 0 ?raw ?self
     = except_handlers flat_isa (pipeline_and_receive accepting_hook ?m (count_received 0 ?raw ?self))"
    by (rule inst [THEN conjunct2, THEN conjunct2, THEN conjunct1, rule_format, THEN conjunct2,
          OF conjI [OF parsed conjI [OF nopong own]]])
  have chan: "fastapi_channel_handle_message flat_isa example_loads accepting_hook 0 ?raw ?cself
     = fastapi_channel_except_handlers flat_isa ?cself
         (pipeline_and_receive accepting_hook ?m (count_received 0 ?raw (as_base_consumer ?cself)))"
    by (rule inst [THEN conjunct2, THEN conjunct2, THEN conjunct2, rule_format, THEN conjunct2,
          OF conjI [OF parsed conjI [OF nopong cown]]])
  show ?thesis
    by (intro conjI) (rule built built2 sent core chan)+
qed

lemma run_stacks_first_raises:
  "process mw m c = Inl e \<Longrightarrow> run_stacks (mw # mws) m c = Inl e"
  by (cases mw) simp

lemma except_handlers_typed:
  "\<not> instance_of isa (exn_class e) JSONDecodeError \<Longrightarrow> typed_handler_takes isa e \<Longrightarrow>
   except_handlers isa (Inl e, s) = (Inr (), s\<lparr>connection := send_json (ErrorFrame e) (connection s)\<rparr>)"
  by (simp add: except_handlers_def)

lemma handle_message_stage_error:
  assumes "loads raw = Inr (PyDict d)"
    and "dict_get d ''type'' (PyStr ''message'') \<noteq> PyStr ''pong''"
    and "construct_message (connection self) d now = Inr m"
    and "\<not> instance_of isa (exn_class e) JSONDecodeError" and "typed_handler_takes isa e"
    and "run_stacks (middleware_stacks self) m (connection (count_received now raw self)) = Inl e"
  shows "handle_message isa loads recv now raw self =
     (Inr (), (count_received now raw self)
        \<lparr>connection := send_json (ErrorFrame e) (connection (count_received now raw self))\<rparr>)"
proof -
  have stacks: "middleware_stacks (count_received now raw self) = middleware_stacks self"
    by (simp add: count_received_def)
  have "try_body loads recv now raw self = (Inl e, count_received now raw self)"
    using assms(6) stacks
    by (simp add: try_body_message [where loads = loads and raw = raw and d = d and self = self
          and now = now and m = m and recv = recv, OF assms(1-3)] pipeline_and_receive_def)
  then show ?thesis
    by (simp add: handle_message_def except_handlers_typed [OF assms(4,5)])
qed

lemma handle_message_hook_error:
  assumes "loads raw = Inr (PyDict d)"
    and "dict_get d ''type'' (PyStr ''message'') \<noteq> PyStr ''pong''"
    and "construct_message (connection self) d now = Inr m"
    and "\<not> instance_of isa (exn_class e) JSONDecodeError" and "typed_handler_takes isa e"
    and "run_stacks (middleware_stacks self) m (connection (count_received now raw self)) = Inr (Some m')"
    and "recv m' (connection (count_received now raw self)) = (Some e, c')"
  shows "handle_message isa loads recv now raw self =
     (Inr (), self\<lparr>connection := send_json (ErrorFrame e) c'\<rparr>)"
proof -
  have stacks: "middleware_stacks (count_received now raw self) = middleware_stacks self"
    by (simp add: count_received_def)
  have "try_body loads recv now raw self = (Inl e, (count_received now raw self)\<lparr>connection := c'\<rparr>)"
    using assms(6,7) stacks
    by (simp add: try_body_message [where loads = loads and raw = raw and d = d and self = self
          and now = now and m = m and recv = recv, OF assms(1-3)] pipeline_and_receive_def)
  then show ?thesis
    by (simp add: handle_message_def except_handlers_typed [OF assms(4,5)] count_received_def)
qed

lemma handle_message_invalid_json:
  assumes "loads raw = Inl e" and "instance_of isa (exn_class e) JSONDecodeError"
  shows "handle_message isa loads recv now raw self =
     (Inl (invalid_json_error (connection self) e), self)"
  using assms
  by (simp add: handle_message_def try_body_def except_handlers_def)

lemma handle_message_loads_error:
  assumes "loads raw = Inl e" and "\<not> instance_of isa (exn_class e) JSONDecodeError"
    and "\<not> typed_handler_takes isa e"
  shows "handle_message isa loads recv now raw self = (Inl e, self)"
  using assms
  by (simp add: handle_message_def try_body_def except_handlers_def)

lemma invalid_json_error_kind:
  "exn_class (invalid_json_error c e) = ValidationError"
  "exn_code (invalid_json_error c e) = Some ''INVALID_JSON''"
  by (simp_all add: invalid_json_error_def)

text \<open>
  C1, as stated, fails for malformed JSON: the handler of \<open>JSONDecodeError\<close> raises a
  \<open>ValidationError\<close>, which leaves \<open>handle_message\<close>; nothing is sent on the transport and
  the consumer is as before.
\<close>

theorem invalid_json_counterexample:
  "example_loads ''oops'' = Inl (py_raise JSONDecodeError ''Expecting value: line 1 column 1 (char 0)'')
   \<and> map_sum exn_class id
        (fst (handle_message flat_isa example_loads accepting_hook 100 ''oops''
           \<lparr>connection = \<lparr>channel_name = ''c1'', user_id = Some ''alice'', bytes_received = 0,
                          last_heartbeat = 0, last_activity = 0, websocket = []\<rparr>,
            middleware_stacks = []\<rparr>))
       = Inl ValidationError
   \<and> map_sum exn_code id
        (fst (handle_message flat_isa example_loads accepting_hook 100 ''oops''
           \<lparr>connection = \<lparr>channel_name = ''c1'', user_id = Some ''alice'', bytes_received = 0,
                          last_heartbeat = 0, last_activity = 0, websocket = []\<rparr>,
            middleware_stacks = []\<rparr>))
       = Inl (Some ''INVALID_JSON'')
   \<and> snd (handle_message flat_isa example_loads accepting_hook 100 ''oops''
           \<lparr>connection = \<lparr>channel_name = ''c1'', user_id = Some ''alice'', bytes_received = 0,
                          last_heartbeat = 0, last_activity = 0, websocket = []\<rparr>,
            middleware_stacks = []\<rparr>)
       = \<lparr>connection = \<lparr>channel_name = ''c1'', user_id = Some ''alice'', bytes_received = 0,
                         last_heartbeat = 0, last_activity = 0, websocket = []\<rparr>,
          middleware_stacks = []\<rparr>"
  by (simp add: handle_message_def try_body_def except_handlers_def example_loads_def
        instance_of_def py_raise_def invalid_json_error_def)

text \<open>
  C1, amended. While \<open>handle_message\<close> processes a frame that \<open>json.loads\<close> parses to a
  dictionary whose type is not \<open>pong\<close> and from which the \<open>Message\<close> is built without
  error: an exception raised by the middleware pipeline (for instance by its first stage)
  or by the \<open>receive\<close> hook, whose class is \<open>AuthenticationError\<close>, \<open>ValidationError\<close> or
  \<open>MessageError\<close> or a subclass of one of them, and is neither \<open>JSONDecodeError\<close> nor a
  subclass of it, is caught: \<open>handle_message\<close> returns normally, and the consumer is left
  as the processing before the exception left it (byte counter and activity time
  updated; after a hook exception, the connection as the hook returned it) with the
  response envelope of the exception appended to the frames sent on the transport of the
  consumer's own connection. For a frame on which \<open>json.loads\<close> raises \<open>JSONDecodeError\<close> or
  a subclass of it, \<open>handle_message\<close> raises a \<open>ValidationError\<close> with code \<open>INVALID_JSON\<close> to
  its caller, and the consumer is unchanged, so nothing is sent. Any other exception of
  \<open>json.loads\<close> that is not of the three classes leaves \<open>handle_message\<close> as it is, the
  consumer unchanged.
\<close>

theorem typed_errors_answered:
  "(process mw m c = Inl e \<longrightarrow> run_stacks (mw # mws) m c = Inl e)
   \<and> (loads raw = Inr (PyDict d) \<and> dict_get d ''type'' (PyStr ''message'') \<noteq> PyStr ''pong''
        \<and> construct_message (connection self) d now = Inr m
        \<and> \<not> instance_of isa (exn_class e) JSONDecodeError \<and> typed_handler_takes isa e
        \<and> run_stacks (middleware_stacks self) m (connection (count_received now raw self)) = Inl e
      \<longrightarrow> handle_message isa loads recv now raw self =
            (Inr (), (count_received now raw self)
               \<lparr>connection := send_json (ErrorFrame e) (connection (count_received now raw self))\<rparr>))
   \<and> (loads raw = Inr (PyDict d) \<and> dict_get d ''type'' (PyStr ''message'') \<noteq> PyStr ''pong''
        \<and> construct_message (connection self) d now = Inr m
        \<and> \<not> instance_of isa (exn_class e) JSONDecodeError \<and> typed_handler_takes isa e
        \<and> run_stacks (middleware_stacks self) m (connection (count_received now raw self)) = Inr (Some m')
        \<and> recv m' (connection (count_received now raw self)) = (Some e, c')
      \<longrightarrow> handle_message isa loads recv now raw self =
            (Inr (), self\<lparr>connection := send_json (ErrorFrame e) c'\<rparr>))
   \<and> (loads raw = Inl e \<and> instance_of isa (exn_class e) JSONDecodeError
      \<longrightarrow> handle_message isa loads recv now raw self =
            (Inl (invalid_json_error (connection self) e), self))
   \<and> exn_class (invalid_json_error c e) = ValidationError
   \<and> exn_code (invalid_json_error c e) = Some ''INVALID_JSON''
   \<and> (loads raw = Inl e \<and> \<not> instance_of isa (exn_class e) JSONDecodeError
        \<and> \<not> typed_handler_takes isa e
      \<longrightarrow> handle_message isa loads recv now raw self = (Inl e, self))"
proof -
  have stage: "process mw m c = Inl e \<longrightarrow> run_stacks (mw # mws) m c = Inl e"
    using run_stacks_first_raises [of mw m c e mws] by blast
  have pipeline: "loads raw = Inr (PyDict d) \<and> dict_get d ''type'' (PyStr ''message'') \<noteq> PyStr ''pong''
        \<and> construct_message (connection self) d now = Inr m
        \<and> \<not> instance_of isa (exn_class e) JSONDecodeError \<and> typed_handler_takes isa e
        \<and> run_stacks (middleware_stacks self) m (connection (count_received now raw self)) = Inl e
      \<longrightarrow> handle_message isa loads recv now raw self =
            (Inr (), (count_received now raw self)
               \<lparr>connection := send_json (ErrorFrame e) (connection (count_received now raw self))\<rparr>)"
    using handle_message_stage_error [where loads = loads and raw = raw and d = d and self = self
        and now = now and m = m and isa = isa and e = e and recv = recv]
    by blast
  have hook: "loads raw = Inr (PyDict d) \<and> dict_get d ''type'' (PyStr ''message'') \<noteq> PyStr ''pong''
        \<and> construct_message (connection self) d now = Inr m
        \<and> \<not> instance_of isa (exn_class e) JSONDecodeError \<and> typed_handler_takes isa e
        \<and> run_stacks (middleware_stacks self) m (connection (count_received now raw self)) = Inr (Some m')
        \<and> recv m' (connection (count_received now raw self)) = (Some e, c')
      \<longrightarrow> handle_message isa loads recv now raw self =
            (Inr (), self\<lparr>connection := send_json (ErrorFrame e) c'\<rparr>)"
    using handle_message_hook_error [where loads = loads and raw = raw and d = d and self = self
        and now = now and m = m and isa = isa and e = e and m' = m' and recv = recv and c' = c']
    by blast
  have json: "loads raw = Inl e \<and> instance_of isa (exn_class e) JSONDecodeError
      \<longrightarrow> handle_message isa loads recv now raw self =
            (Inl (invalid_json_error (connection self) e), self)"
    using handle_message_invalid_json [where loads = loads and raw = raw and e = e and isa = isa
        and recv = recv and now = now and self = self]
    by blast
  have other: "loads raw = Inl e \<and> \<not> instance_of isa (exn_class e) JSONDecodeError
        \<and> \<not> typed_handler_takes isa e
      \<longrightarrow> handle_message isa loads recv now raw self = (Inl e, self)"
    using handle_message_loads_error [where loads = loads and raw = raw and e = e and isa = isa
        and recv = recv and now = now and self = self]
    by blast
  show ?thesis
    by (intro conjI)
       (rule stage pipeline hook json invalid_json_error_kind(1) invalid_json_error_kind(2) other)+
qed

theorem typed_errors_answered_witness:
  "handle_message flat_isa example_loads accepting_hook 0 ''{\"type\": \"chat\"}''
      \<lparr>connection = example_connection ''c1'' None,
       middleware_stacks = [Middleware authentication_process None]\<rparr>
     = (Inr (),
        \<lparr>connection = (example_connection ''c1'' None)
           \<lparr>bytes_received := 16,
            websocket := [ErrorFrame
              \<lparr>exn_class = AuthenticationError, exn_message = ''Authentication required'',
               exn_code = None,
               exn_context = [(''connection_id'', PyStr ''c1''), (''message_type'', PyStr ''chat''),
                              (''component'', PyStr ''authentication_middleware'')],
               exn_details = []\<rparr>]\<rparr>,
         middleware_stacks = [Middleware authentication_process None]\<rparr>)
   \<and> handle_message flat_isa example_loads rejecting_hook 0 ''{\"type\": \"chat\"}''
      \<lparr>connection = example_connection ''c1'' None, middleware_stacks = []\<rparr>
     = (Inr (),
        \<lparr>connection = (example_connection ''c1'' None)
           \<lparr>bytes_received := 16,
            websocket := [ErrorFrame (py_raise MessageError ''rejected'')]\<rparr>,
         middleware_stacks = []\<rparr>)
   \<and> handle_message flat_isa example_loads accepting_hook 0 ''oops''
      \<lparr>connection = example_connection ''c1'' None, middleware_stacks = []\<rparr>
     = (Inl (invalid_json_error (example_connection ''c1'' None)
              (py_raise JSONDecodeError ''Expecting value: line 1 column 1 (char 0)'')),
        \<lparr>connection = example_connection ''c1'' None, middleware_stacks = []\<rparr>)
   \<and> handle_message flat_isa deep_loads accepting_hook 0 ''[[[[''
      \<lparr>connection = example_connection ''c1'' None, middleware_stacks = []\<rparr>
     = (Inl (py_raise RecursionError ''maximum recursion depth exceeded''),
        \<lparr>connection = example_connection ''c1'' None, middleware_stacks = []\<rparr>)"
proof -
  let ?raw = "''{\"type\": \"chat\"}''"
  let ?d = "[(''type'', PyStr ''chat'')]"
  let ?c = "example_connection ''c1'' None"
  let ?m = "example_message (PyStr ''chat'') PyNone PyNone"
  let ?auth = "Middleware authentication_process None"
  let ?self = "\<lparr>connection = ?c, middleware_stacks = [?auth]\<rparr>"
  let ?plain = "\<lparr>connection = ?c, middleware_stacks = []\<rparr>"
  let ?e = "\<lparr>exn_class = AuthenticationError, exn_message = ''Authentication required'',
             exn_code = None,
             exn_context = [(''connection_id'', PyStr ''c1''), (''message_type'', PyStr ''chat''),
                            (''component'', PyStr ''authentication_middleware'')],
             exn_details = []\<rparr>"
  let ?r = "py_raise MessageError ''rejected''"
  let ?j = "py_raise JSONDecodeError ''Expecting value: line 1 column 1 (char 0)''"
  let ?x = "py_raise RecursionError ''maximum recursion depth exceeded''"
  have parsed: "example_loads ?raw = Inr (PyDict ?d)"
    by (simp add: example_loads_def)
  have nopong: "dict_get ?d ''type'' (PyStr ''message'') \<noteq> PyStr ''pong''"
    by (simp add: dict_get_def)
  have built: "construct_message ?c ?d 0 = Inr ?m"
    by (simp add: construct_message_def parse_priority_def dict_get_def example_message_def
          example_connection_def)
  have own: "construct_message (connection ?self) ?d 0 = Inr ?m"
    using built by simp
  have pown: "construct_message (connection ?plain) ?d 0 = Inr ?m"
    using built by simp
  have nojson: "\<not> instance_of flat_isa (exn_class ?e) JSONDecodeError"
    by (simp add: instance_of_def flat_isa_def)
  have typed: "typed_handler_takes flat_isa ?e"
    by (simp add: typed_handler_takes_def instance_of_def)
  have rnojson: "\<not> instance_of flat_isa (exn_class ?r) JSONDecodeError"
    by (simp add: instance_of_def flat_isa_def py_raise_def)
  have rtyped: "typed_handler_takes flat_isa ?r"
    by (simp add: typed_handler_takes_def instance_of_def py_raise_def)
  have counted: "connection (count_received 0 ?raw ?self) = ?c\<lparr>bytes_received := 16\<rparr>"
    "connection (count_received 0 ?raw ?plain) = ?c\<lparr>bytes_received := 16\<rparr>"
    by (simp_all add: count_received_def update_activity_def example_connection_def)
  have raises: "process ?auth ?m (?c\<lparr>bytes_received := 16\<rparr>) = Inl ?e"
    by (simp add: authentication_process_def example_message_def example_connection_def
          truthy_str_def create_error_context_def)
  have stage0: "run_stacks (?auth # []) ?m (?c\<lparr>bytes_received := 16\<rparr>) = Inl ?e"
    by (rule typed_errors_answered [where mw = ?auth and m = ?m
          and c = "?c\<lparr>bytes_received := 16\<rparr>" and e = ?e and mws = "[]",
          THEN conjunct1, rule_format, OF raises])
  have stage: "run_stacks (middleware_stacks ?self) ?m (connection (count_received 0 ?raw ?self)) = Inl ?e"
    unfolding counted using stage0 by simp
  have passed: "run_stacks (middleware_stacks ?plain) ?m (connection (count_received 0 ?raw ?plain))
      = Inr (Some ?m)"
    by simp
  have hook: "rejecting_hook ?m (connection (count_received 0 ?raw ?plain))
      = (Some ?r, ?c\<lparr>bytes_received := 16\<rparr>)"
    unfolding counted by (simp add: rejecting_hook_def)
  have bad: "example_loads ''oops'' = Inl ?j"
    by (simp add: example_loads_def)
  have isjson: "instance_of flat_isa (exn_class ?j) JSONDecodeError"
    by (simp add: instance_of_def py_raise_def)
  have deep: "deep_loads ''[[[['' = Inl ?x"
    by (simp add: deep_loads_def)
  have xnojson: "\<not> instance_of flat_isa (exn_class ?x) JSONDecodeError"
    by (simp add: instance_of_def flat_isa_def py_raise_def)
  have xuntyped: "\<not> typed_handler_takes flat_isa ?x"
    by (simp add: typed_handler_takes_def instance_of_def flat_isa_def py_raise_def)
  have p1: "handle_message flat_isa example_loads accepting_hook 0 ?raw ?self
      = (Inr (), (count_received 0 ?raw ?self)
          \<lparr>connection := send_json (ErrorFrame ?e) (connection (count_received 0 ?raw ?self))\<rparr>)"
    by (rule typed_errors_answered [where loads = example_loads and raw = ?raw and d = ?d
          and self = ?self and now = 0 and m = ?m and isa = flat_isa and e = ?e
          and recv = accepting_hook,
          THEN conjunct2, THEN conjunct1, rule_format,
          OF conjI [OF parsed conjI [OF nopong conjI [OF own conjI [OF nojson conjI [OF typed stage]]]]]])
  have p2: "handle_message flat_isa example_loads rejecting_hook 0 ?raw ?plain
      = (Inr (), ?plain\<lparr>connection := send_json (ErrorFrame ?r) (?c\<lparr>bytes_received := 16\<rparr>)\<rparr>)"
    by (rule typed_errors_answered [where loads = example_loads and raw = ?raw and d = ?d
          and self = ?plain and now = 0 and m = ?m and isa = flat_isa and e = ?r
          and recv = rejecting_hook and m' = ?m and c' = "?c\<lparr>bytes_received := 16\<rparr>",
          THEN conjunct2, THEN conjunct2, THEN conjunct1, rule_format,
          OF conjI [OF parsed conjI [OF nopong conjI [OF pown conjI [OF rnojson
               conjI [OF rtyped conjI [OF passed hook]]]]]]])
  have p3: "handle_message flat_isa example_loads accepting_hook 0 ''oops'' ?plain
      = (Inl (invalid_json_error (connection ?plain) ?j), ?plain)"
    by (rule typed_errors_answered [where loads = example_loads and raw = "''oops''"
          and e = ?j and self = ?plain and now = 0 and isa = flat_isa and recv = accepting_hook,
          THEN conjunct2, THEN conjunct2, THEN conjunct2, THEN conjunct1, rule_format,
          OF conjI [OF bad isjson]])
  have p4: "handle_message flat_isa deep_loads accepting_hook 0 ''[[[['' ?plain = (Inl ?x, ?plain)"
    by (rule typed_errors_answered [where loads = deep_loads and raw = "''[[[[''"
          and e = ?x and self = ?plain and now = 0 and isa = flat_isa and recv = accepting_hook,
          THEN conjunct2, THEN conjunct2, THEN conjunct2, THEN conjunct2, THEN conjunct2,
          THEN conjunct2, rule_format,
          OF conjI [OF deep conjI [OF xnojson xuntyped]]])
  have q1: "handle_message flat_isa example_loads accepting_hook 0 ?raw ?self
      = (Inr (), \<lparr>connection = ?c\<lparr>bytes_received := 16, websocket := [ErrorFrame ?e]\<rparr>,
                  middleware_stacks = [?auth]\<rparr>)"
    unfolding p1 by (simp add: count_received_def update_activity_def send_json_def example_connection_def)
  have q2: "handle_message flat_isa example_loads rejecting_hook 0 ?raw ?plain
      = (Inr (), \<lparr>connection = ?c\<lparr>bytes_received := 16, websocket := [ErrorFrame ?r]\<rparr>,
                  middleware_stacks = []\<rparr>)"
    unfolding p2 by (simp add: send_json_def example_connection_def)
  have q3: "handle_message flat_isa example_loads accepting_hook 0 ''oops'' ?plain
      = (Inl (invalid_json_error ?c ?j), ?plain)"
    unfolding p3 by simp
  show ?thesis
    by (intro conjI) (rule q1 q2 q3 p4)+
qed

end
